theory Spec2Isabelle
  imports Complex_Main
begin

section \<open>Arrays\<close>

text \<open>
  The cells compute on two-dimensional \<open>jax.numpy\<close> arrays of shape
  \<open>(batch_size, n_units)\<close>.  An array is its shape and its row-major buffer.  Numbers are
  modelled as reals: rounding, overflow and NaN of \<open>float32\<close> are outside the model.

  An operation between an array and a Python scalar keeps the array's shape and cannot fail
  ( \<open>scalar_op\<close> ).  An operation between two arrays follows NumPy's broadcasting rule
  ( \<open>broadcast\<close> ): in each dimension the two sizes must be equal or one of them must be 1,
  the size-1 dimension is stretched, and any other pair of sizes raises an error.
\<close>

datatype error = ShapeMismatch "nat \<times> nat" "nat \<times> nat"

datatype tensor = Tensor (nrows: nat) (ncols: nat) (buf: "real list")

definition shape :: "tensor \<Rightarrow> nat \<times> nat" where
  "shape x = (nrows x, ncols x)"

definition entry :: "tensor \<Rightarrow> nat \<Rightarrow> nat \<Rightarrow> real" where
  "entry x i k = buf x ! (i * ncols x + k)"

definition tabulate2 :: "nat \<Rightarrow> nat \<Rightarrow> (nat \<Rightarrow> nat \<Rightarrow> real) \<Rightarrow> tensor" where
  "tabulate2 r c g = Tensor r c (map (\<lambda>n. g (n div c) (n mod c)) [0..<r * c])"

definition zeros :: "nat \<times> nat \<Rightarrow> tensor" where
  \<comment> \<open>\<open>jnp.zeros((r, c))\<close>\<close>
  "zeros sh = tabulate2 (fst sh) (snd sh) (\<lambda>i k. 0)"

definition scalar_op :: "(real \<Rightarrow> real) \<Rightarrow> tensor \<Rightarrow> tensor" where
  \<comment> \<open>an elementwise operation with a Python scalar, such as \<open>j * R_m\<close> or \<open>1. - s\<close>\<close>
  "scalar_op f x = tabulate2 (nrows x) (ncols x) (\<lambda>i k. f (entry x i k))"

definition compat :: "nat \<Rightarrow> nat \<Rightarrow> bool" where
  "compat m n \<longleftrightarrow> m = n \<or> m = 1 \<or> n = 1"

definition bdim :: "nat \<Rightarrow> nat \<Rightarrow> nat" where
  "bdim m n = (if m = 1 then n else m)"

definition bidx :: "nat \<Rightarrow> nat \<Rightarrow> nat" where
  "bidx m i = (if m = 1 then 0 else i)"

definition stretch :: "(real \<Rightarrow> real \<Rightarrow> real) \<Rightarrow> tensor \<Rightarrow> tensor \<Rightarrow> tensor" where
  "stretch f x y =
     tabulate2 (bdim (nrows x) (nrows y)) (bdim (ncols x) (ncols y))
       (\<lambda>i k. f (entry x (bidx (nrows x) i) (bidx (ncols x) k))
                 (entry y (bidx (nrows y) i) (bidx (ncols y) k)))"

definition broadcast :: "(real \<Rightarrow> real \<Rightarrow> real) \<Rightarrow> tensor \<Rightarrow> tensor \<Rightarrow> error + tensor" where
  \<comment> \<open>an elementwise operation between two arrays, such as \<open>a * b\<close> or \<open>a > b\<close>\<close>
  "broadcast f x y =
     (if compat (nrows x) (nrows y) \<and> compat (ncols x) (ncols y)
      then Inr (stretch f x y)
      else Inl (ShapeMismatch (shape x) (shape y)))"

definition and_then :: "error + 'a \<Rightarrow> ('a \<Rightarrow> error + 'b) \<Rightarrow> error + 'b" where
  \<comment> \<open>sequencing: an exception raised by a statement ends the function\<close>
  "and_then m f = (case m of Inl e \<Rightarrow> Inl e | Inr a \<Rightarrow> f a)"

definition sum_axis1 :: "tensor \<Rightarrow> tensor" where
  \<comment> \<open>\<open>jnp.sum(x, axis=1, keepdims=True)\<close>\<close>
  "sum_axis1 x = tabulate2 (nrows x) 1 (\<lambda>i k. sum_list (map (entry x i) [0..<ncols x]))"

type_synonym prng_key = "nat \<Rightarrow> real"

definition random_split :: "prng_key \<Rightarrow> prng_key \<times> prng_key" where
  \<comment> \<open>\<open>jax.random.split(key)\<close>: a key stands for the sequence of draws in [0, 1) it determines\<close>
  "random_split key = (\<lambda>n. key (2 * n), \<lambda>n. key (2 * n + 1))"

definition random_uniform :: "prng_key \<Rightarrow> nat \<times> nat \<Rightarrow> real \<Rightarrow> real \<Rightarrow> tensor" where
  \<comment> \<open>\<open>jax.random.uniform(key, shape, minval=..., maxval=...)\<close>\<close>
  "random_uniform key sh minval maxval =
     tabulate2 (fst sh) (snd sh) (\<lambda>i k. minval + (maxval - minval) * key (i * snd sh + k))"


section \<open>ngclearn/utils/surrogate\_fx.py\<close>

definition secant_lif_spike_fx :: "real \<Rightarrow> real \<Rightarrow> real" where
  "secant_lif_spike_fx v thr = (if v > thr then 1 else 0)"

definition secant_lif_d_spike_fx :: "real \<Rightarrow> real \<Rightarrow> real \<Rightarrow> real \<Rightarrow> bool \<Rightarrow> real" where
  \<comment> \<open>\<open>d_spike_fx\<close> of \<open>secant_lif_estimator\<close>, at one element \<open>j\<close> of the current\<close>
  "secant_lif_d_spike_fx j thr c1 c2 omit_scale =
     (let mask = (if j > 0 then 1 else 0);
          dj = j * c2;
          cosh_j = (exp dj + exp (- dj)) / 2;
          sech_j = 1 / cosh_j;
          dv_dj = sech_j;
          dv_dj = (if omit_scale = False then dv_dj * (c1 * c2) else dv_dj)
      in dv_dj * mask)"


section \<open>Helpers of the repository that are not among the source files\<close>

definition softmax :: "tensor \<Rightarrow> tensor" where
  \<comment> \<open>Modelled from the spec: \<open>ngclearn.utils.model_utils.softmax\<close> is missing from the
      sources.  Spec 4.3, step 3: the voltage is normalised "across units in the same
      population/batch row" into a probability-like distribution via softmax.\<close>
  "softmax x = tabulate2 (nrows x) (ncols x)
     (\<lambda>i k. exp (entry x i k) / sum_list (map (\<lambda>n. exp (entry x i n)) [0..<ncols x]))"

definition get_integrator_code :: "string \<Rightarrow> int" where
  \<comment> \<open>Modelled from the spec: \<open>ngclearn.utils.diffeq.ode_utils.get_integrator_code\<close> is
      missing from the sources.  Spec 6: recognised values are "euler" (first-order explicit)
      and "midpoint" or "rk2" (second-order explicit); "unrecognized values fall back to
      Euler".  The codes are the ones \<open>RAFCell._advance_state\<close> tests: 1 for midpoint/RK-2,
      0 for Euler.\<close>
  "get_integrator_code integrationType =
     (if integrationType = ''midpoint'' \<or> integrationType = ''rk2'' then 1 else 0)"

definition step_euler ::
  "real \<Rightarrow> tensor \<Rightarrow> (real \<Rightarrow> tensor \<Rightarrow> 'p \<Rightarrow> error + tensor) \<Rightarrow> real \<Rightarrow> 'p \<Rightarrow> error + (real \<times> tensor)" where
  \<comment> \<open>Modelled from the spec: \<open>ngclearn.utils.diffeq.ode_utils.step_euler\<close> is missing from
      the sources.  Spec 4.1: \<open>new_y = y + dt * f(t, y, params)\<close>, producing
      \<open>(new_t, new_y)\<close>.\<close>
  "step_euler t x dfx dt params =
     and_then (dfx t x params) (\<lambda>dx_dt.
     and_then (broadcast (+) x (scalar_op (\<lambda>d. d * dt) dx_dt)) (\<lambda>x'.
     Inr (t + dt, x')))"

definition step_rk2 ::
  "real \<Rightarrow> tensor \<Rightarrow> (real \<Rightarrow> tensor \<Rightarrow> 'p \<Rightarrow> error + tensor) \<Rightarrow> real \<Rightarrow> 'p \<Rightarrow> error + (real \<times> tensor)" where
  \<comment> \<open>Modelled from the spec: \<open>ngclearn.utils.diffeq.ode_utils.step_rk2\<close> is missing from
      the sources.  Spec 4.1: "evaluate f at t to estimate a half-step state, evaluate f
      again at the half-step, and use that second evaluation scaled by dt to advance from
      y".\<close>
  "step_rk2 t x dfx dt params =
     and_then (dfx t x params) (\<lambda>dx_dt.
     and_then (broadcast (+) x (scalar_op (\<lambda>d. d * (dt / 2)) dx_dt)) (\<lambda>x_half.
     and_then (dfx (t + dt / 2) x_half params) (\<lambda>dx_dt.
     and_then (broadcast (+) x (scalar_op (\<lambda>d. d * dt) dx_dt)) (\<lambda>x'.
     Inr (t + dt, x')))))"


section \<open>ngclearn/components/neurons/spiking/WTASCell.py\<close>

definition update_times :: "real \<Rightarrow> tensor \<Rightarrow> tensor \<Rightarrow> error + tensor" where
  "update_times t s tols =
     and_then (broadcast (*) (scalar_op (\<lambda>x. 1 - x) s) tols) (\<lambda>a.
     broadcast (+) a (scalar_op (\<lambda>x. x * t) s))"

definition run_cell ::
  "real \<Rightarrow> tensor \<Rightarrow> tensor \<Rightarrow> tensor \<Rightarrow> tensor \<Rightarrow> real \<Rightarrow> real \<Rightarrow> real \<Rightarrow> real
     \<Rightarrow> error + (tensor \<times> tensor \<times> tensor \<times> tensor)" where
  "run_cell dt j v rfr v_thr tau_m R_m thr_gain refract_T =
     (let mask = scalar_op (\<lambda>x. if x \<ge> refract_T then 1 else 0) rfr in
      and_then (broadcast (*) (scalar_op (\<lambda>x. x * R_m) j) mask) (\<lambda>v.
      let vp = softmax v in
      and_then (broadcast (\<lambda>a b. if a > b then 1 else 0) vp v_thr) (\<lambda>s.
      let q = 1;
          dthr = scalar_op (\<lambda>x. x - q) (sum_axis1 s) in
      and_then (broadcast (+) v_thr (scalar_op (\<lambda>x. x * thr_gain) dthr)) (\<lambda>a.
      let v_thr = scalar_op (\<lambda>x. max x 0.025) a in
      and_then (broadcast (*) (scalar_op (\<lambda>x. x + dt) rfr) (scalar_op (\<lambda>x. 1 - x) s)) (\<lambda>b.
      and_then (broadcast (+) b (scalar_op (\<lambda>x. x * dt) s)) (\<lambda>rfr.
      Inr (v, s, v_thr, rfr)))))))"

text \<open>
  The compartments of a cell are fields of a record; the field \<open>wtas_v\<close> is \<open>self.v\<close>, and
  so on (a field called \<open>v\<close> would capture the variable of that name).
\<close>

record WTASCell =
  wtas_name :: string
  wtas_tau_m :: real
  wtas_R_m :: real
  wtas_thr_gain :: real
  wtas_thr_base :: real
  wtas_refract_T :: real
  wtas_batch_size :: nat
  wtas_n_units :: nat
  wtas_threshold0 :: tensor
  wtas_j :: tensor
  wtas_v :: tensor
  wtas_s :: tensor
  wtas_thr :: tensor
  wtas_rfr :: tensor
  wtas_tols :: tensor

definition WTASCell_init ::
  "string \<Rightarrow> nat \<Rightarrow> real \<Rightarrow> real \<Rightarrow> real \<Rightarrow> real \<Rightarrow> real \<Rightarrow> real \<Rightarrow> prng_key \<Rightarrow> string option
     \<Rightarrow> (string \<times> nat) list \<Rightarrow> WTASCell" where
  \<comment> \<open>\<open>WTASCell.__init__\<close>; \<open>kwargs\<close> are the extra keyword arguments, handed on to
      \<open>Component.__init__\<close> and not read here\<close>
  "WTASCell_init name n_units tau_m R_m thr_base thr_gain refract_T thr_jitter key directory kwargs =
     (let batch_size = 1;
          (key, subkey) = random_split key;
          threshold0 = scalar_op (\<lambda>x. thr_base + x)
                         (random_uniform subkey (1, n_units) (- thr_jitter) thr_jitter);
          restVals = zeros (batch_size, n_units)
      in \<lparr> wtas_name = name, wtas_tau_m = tau_m, wtas_R_m = R_m, wtas_thr_gain = thr_gain,
           wtas_thr_base = thr_base, wtas_refract_T = refract_T,
           wtas_batch_size = batch_size, wtas_n_units = n_units,
           wtas_threshold0 = threshold0,
           wtas_j = restVals, wtas_v = restVals, wtas_s = restVals,
           wtas_thr = threshold0,
           wtas_rfr = scalar_op (\<lambda>x. x + refract_T) restVals,
           wtas_tols = restVals \<rparr>)"

definition WTAS_advance_state_pure ::
  "real \<Rightarrow> real \<Rightarrow> real \<Rightarrow> real \<Rightarrow> real \<Rightarrow> real
     \<Rightarrow> tensor \<Rightarrow> tensor \<Rightarrow> tensor \<Rightarrow> tensor \<Rightarrow> tensor \<Rightarrow> tensor
     \<Rightarrow> error + (tensor \<times> tensor \<times> tensor \<times> tensor \<times> tensor)" where
  \<comment> \<open>the static method \<open>WTASCell._advance_state\<close>\<close>
  "WTAS_advance_state_pure t dt tau_m R_m thr_gain refract_T j v s thr rfr tols =
     and_then (run_cell dt j v rfr thr tau_m R_m thr_gain refract_T) (\<lambda>(v, s, thr, rfr).
     and_then (update_times t s tols) (\<lambda>tols.
     Inr (v, s, thr, rfr, tols)))"

definition WTAS_advance_state :: "WTASCell \<Rightarrow> real \<Rightarrow> real \<Rightarrow> error + WTASCell" where
  \<comment> \<open>\<open>WTASCell.advance_state\<close>: the resolver calls \<open>_advance_state\<close> on the cell's fields
      and stores what it returns\<close>
  "WTAS_advance_state c t dt =
     and_then (WTAS_advance_state_pure t dt (wtas_tau_m c) (wtas_R_m c) (wtas_thr_gain c)
                 (wtas_refract_T c) (wtas_j c) (wtas_v c) (wtas_s c) (wtas_thr c) (wtas_rfr c)
                 (wtas_tols c))
       (\<lambda>(v, s, thr, rfr, tols).
          Inr (c\<lparr>wtas_v := v, wtas_s := s, wtas_thr := thr, wtas_rfr := rfr, wtas_tols := tols\<rparr>))"

definition WTAS_reset_pure :: "nat \<Rightarrow> nat \<Rightarrow> real \<Rightarrow> tensor \<times> tensor \<times> tensor \<times> tensor \<times> tensor" where
  \<comment> \<open>the static method \<open>WTASCell._reset\<close>\<close>
  "WTAS_reset_pure batch_size n_units refract_T =
     (let restVals = zeros (batch_size, n_units);
          j = restVals;
          v = restVals;
          s = restVals;
          rfr = scalar_op (\<lambda>x. x + refract_T) restVals;
          tols = restVals
      in (j, v, s, rfr, tols))"

definition WTAS_reset :: "WTASCell \<Rightarrow> WTASCell" where
  \<comment> \<open>\<open>WTASCell.reset\<close>\<close>
  "WTAS_reset c =
     (case WTAS_reset_pure (wtas_batch_size c) (wtas_n_units c) (wtas_refract_T c) of
        (j, v, s, rfr, tols) \<Rightarrow>
          c\<lparr>wtas_j := j, wtas_v := v, wtas_s := s, wtas_rfr := rfr, wtas_tols := tols\<rparr>)"


section \<open>ngclearn/components/neurons/spiking/RAFCell.py\<close>

definition raf_update_times :: "real \<Rightarrow> tensor \<Rightarrow> tensor \<Rightarrow> error + tensor" where
  \<comment> \<open>\<open>_update_times\<close> of RAFCell.py\<close>
  "raf_update_times t s tols =
     and_then (broadcast (*) (scalar_op (\<lambda>x. 1 - x) s) tols) (\<lambda>a.
     broadcast (+) a (scalar_op (\<lambda>x. x * t) s))"

definition dfv_internal :: "tensor \<Rightarrow> tensor \<Rightarrow> tensor \<Rightarrow> real \<Rightarrow> real \<Rightarrow> real \<Rightarrow> error + tensor" where
  \<comment> \<open>\<open>1. / tau_m\<close> is the code's division only for \<open>tau_m \<noteq> 0\<close>: every statement about
      the values of a RAF step assumes it\<close>
  "dfv_internal j v w tau_m omega b =
     and_then (broadcast (+) (scalar_op (\<lambda>x. omega * x) w) (scalar_op (\<lambda>x. x * b) v)) (\<lambda>dv_dt.
     Inr (scalar_op (\<lambda>x. x * (1 / tau_m)) dv_dt))"

definition dfv :: "real \<Rightarrow> tensor \<Rightarrow> tensor \<times> tensor \<times> real \<times> real \<times> real \<Rightarrow> error + tensor" where
  "dfv t v params = (case params of (j, w, tau_m, omega, b) \<Rightarrow> dfv_internal j v w tau_m omega b)"

definition dfw_internal :: "tensor \<Rightarrow> tensor \<Rightarrow> tensor \<Rightarrow> real \<Rightarrow> real \<Rightarrow> real \<Rightarrow> error + tensor" where
  \<comment> \<open>\<open>1. / tau_w\<close> is the code's division only for \<open>tau_w \<noteq> 0\<close>: every statement about
      the values of a RAF step assumes it\<close>
  "dfw_internal j v w tau_w omega b =
     and_then (broadcast (-) (scalar_op (\<lambda>x. x * b) w) (scalar_op (\<lambda>x. x * omega) v)) (\<lambda>a.
     and_then (broadcast (+) a j) (\<lambda>dw_dt.
     Inr (scalar_op (\<lambda>x. x * (1 / tau_w)) dw_dt)))"

definition dfw :: "real \<Rightarrow> tensor \<Rightarrow> tensor \<times> tensor \<times> real \<times> real \<times> real \<Rightarrow> error + tensor" where
  "dfw t w params = (case params of (j, v, tau_w, omega, b) \<Rightarrow> dfw_internal j v w tau_w omega b)"

definition emit_spike :: "tensor \<Rightarrow> real \<Rightarrow> tensor" where
  "emit_spike v v_thr = scalar_op (\<lambda>x. if x > v_thr then 1 else 0) v"

record RAFCell =
  raf_name :: string
  raf_integrationType :: string
  raf_intgFlag :: int
  raf_tau_m :: real
  raf_R_m :: real
  raf_tau_w :: real
  raf_omega :: real
  raf_b :: real
  raf_v_rest :: real
  raf_v_reset :: real
  raf_w_reset :: real
  raf_v0 :: real
  raf_w0 :: real
  raf_thr :: real
  raf_batch_size :: nat
  raf_n_units :: nat
  raf_j :: tensor
  raf_v :: tensor
  raf_w :: tensor
  raf_s :: tensor
  raf_tols :: tensor

definition RAFCell_init ::
  "string \<Rightarrow> nat \<Rightarrow> real \<Rightarrow> real \<Rightarrow> real \<Rightarrow> real \<Rightarrow> real \<Rightarrow> real \<Rightarrow> real \<Rightarrow> real \<Rightarrow> real \<Rightarrow> real \<Rightarrow> real
     \<Rightarrow> string \<Rightarrow> nat \<Rightarrow> RAFCell" where
  \<comment> \<open>\<open>RAFCell.__init__\<close>\<close>
  "RAFCell_init name n_units tau_m resist_m tau_w omega thr v_rest v_reset w_reset b v0 w0
       integration_type batch_size =
     (let restVals = zeros (batch_size, n_units)
      in \<lparr> raf_name = name,
           raf_integrationType = integration_type,
           raf_intgFlag = get_integrator_code integration_type,
           raf_tau_m = tau_m, raf_R_m = resist_m, raf_tau_w = tau_w, raf_omega = omega,
           raf_b = b, raf_v_rest = v_rest, raf_v_reset = v_reset, raf_w_reset = w_reset,
           raf_v0 = v0, raf_w0 = w0, raf_thr = thr,
           raf_batch_size = batch_size, raf_n_units = n_units,
           raf_j = restVals,
           raf_v = scalar_op (\<lambda>x. x + v0) restVals,
           raf_w = scalar_op (\<lambda>x. x + w0) restVals,
           raf_s = restVals,
           raf_tols = restVals \<rparr>)"

definition RAF_integrate ::
  "int \<Rightarrow> real \<Rightarrow> real \<Rightarrow> real \<Rightarrow> real \<Rightarrow> real \<Rightarrow> tensor \<Rightarrow> tensor \<Rightarrow> tensor \<Rightarrow> error + (tensor \<times> tensor)" where
  \<comment> \<open>the integration block of \<open>RAFCell._advance_state\<close> (the \<open>if intgFlag == 1\<close> statement):
      the candidates \<open>(_w, _v)\<close> from the scaled current \<open>j * R_m\<close> (named \<open>j_\<close> in the source) and the state \<open>v\<close>, \<open>w\<close>\<close>
  "RAF_integrate intgFlag dt tau_m tau_w omega b j_scaled v w =
     (if intgFlag = 1 then
        (let w_params = (j_scaled, v, tau_w, omega, b) in
         and_then (step_rk2 0 w dfw dt w_params) (\<lambda>(_, w').
         let v_params = (j_scaled, w, tau_m, omega, b) in
         and_then (step_rk2 0 v dfv dt v_params) (\<lambda>(_, v').
         Inr (w', v'))))
      else
        (let w_params = (j_scaled, v, tau_w, omega, b) in
         and_then (step_euler 0 w dfw dt w_params) (\<lambda>(_, w').
         let v_params = (j_scaled, w, tau_m, omega, b) in
         and_then (step_euler 0 v dfv dt v_params) (\<lambda>(_, v').
         Inr (w', v')))))"

definition RAF_advance_state_pure ::
  "real \<Rightarrow> real \<Rightarrow> real \<Rightarrow> real \<Rightarrow> real \<Rightarrow> real \<Rightarrow> real \<Rightarrow> real \<Rightarrow> real \<Rightarrow> real \<Rightarrow> real \<Rightarrow> int
     \<Rightarrow> tensor \<Rightarrow> tensor \<Rightarrow> tensor \<Rightarrow> tensor
     \<Rightarrow> error + (tensor \<times> tensor \<times> tensor \<times> tensor \<times> tensor)" where
  \<comment> \<open>the static method \<open>RAFCell._advance_state\<close>\<close>
  "RAF_advance_state_pure t dt tau_m R_m tau_w thr omega b v_rest v_reset w_reset intgFlag j v w tols =
     (let j_scaled = scalar_op (\<lambda>x. x * R_m) j in
      and_then (RAF_integrate intgFlag dt tau_m tau_w omega b j_scaled v w) (\<lambda>(w', v').
      let s = emit_spike v' thr in
      and_then (broadcast (*) v' (scalar_op (\<lambda>x. 1 - x) s)) (\<lambda>a.
      and_then (broadcast (+) a (scalar_op (\<lambda>x. x * v_reset) s)) (\<lambda>v.
      and_then (broadcast (*) w' (scalar_op (\<lambda>x. 1 - x) s)) (\<lambda>a.
      and_then (broadcast (+) a (scalar_op (\<lambda>x. x * w_reset) s)) (\<lambda>w.
      and_then (raf_update_times t s tols) (\<lambda>tols.
      Inr (j, v, w, s, tols))))))))"

definition RAF_advance_state :: "RAFCell \<Rightarrow> real \<Rightarrow> real \<Rightarrow> error + RAFCell" where
  \<comment> \<open>\<open>RAFCell.advance_state\<close>: the resolver calls \<open>_advance_state\<close> on the cell's fields and
      stores what it returns\<close>
  "RAF_advance_state c t dt =
     and_then (RAF_advance_state_pure t dt (raf_tau_m c) (raf_R_m c) (raf_tau_w c) (raf_thr c)
                 (raf_omega c) (raf_b c) (raf_v_rest c) (raf_v_reset c) (raf_w_reset c)
                 (raf_intgFlag c) (raf_j c) (raf_v c) (raf_w c) (raf_tols c))
       (\<lambda>(j, v, w, s, tols).
          Inr (c\<lparr>raf_j := j, raf_w := w, raf_v := v, raf_s := s, raf_tols := tols\<rparr>))"

definition RAF_reset_pure :: "nat \<Rightarrow> nat \<Rightarrow> real \<Rightarrow> real \<Rightarrow> tensor \<times> tensor \<times> tensor \<times> tensor \<times> tensor" where
  \<comment> \<open>the static method \<open>RAFCell._reset\<close>\<close>
  "RAF_reset_pure batch_size n_units v0 w0 =
     (let restVals = zeros (batch_size, n_units);
          j = restVals;
          v = scalar_op (\<lambda>x. x + v0) restVals;
          w = scalar_op (\<lambda>x. x + w0) restVals;
          s = restVals;
          tols = restVals
      in (j, v, w, s, tols))"

definition RAF_reset :: "RAFCell \<Rightarrow> RAFCell" where
  \<comment> \<open>\<open>RAFCell.reset\<close>\<close>
  "RAF_reset c =
     (case RAF_reset_pure (raf_batch_size c) (raf_n_units c) (raf_v0 c) (raf_w0 c) of
        (j, v, w, s, tols) \<Rightarrow>
          c\<lparr>raf_j := j, raf_v := v, raf_w := w, raf_s := s, raf_tols := tols\<rparr>)"


section \<open>The shapes of a cell's compartments\<close>

definition wtas_state_shapes :: "WTASCell \<Rightarrow> (nat \<times> nat) list" where
  \<comment> \<open>the shapes of \<open>j\<close>, \<open>v\<close>, \<open>s\<close>, \<open>thr\<close>, \<open>rfr\<close>, \<open>tols\<close>, in this order\<close>
  "wtas_state_shapes c =
     [shape (wtas_j c), shape (wtas_v c), shape (wtas_s c), shape (wtas_thr c),
      shape (wtas_rfr c), shape (wtas_tols c)]"

definition raf_state_shapes :: "RAFCell \<Rightarrow> (nat \<times> nat) list" where
  \<comment> \<open>the shapes of \<open>j\<close>, \<open>v\<close>, \<open>w\<close>, \<open>s\<close>, \<open>tols\<close>, in this order\<close>
  "raf_state_shapes c =
     [shape (raf_j c), shape (raf_v c), shape (raf_w c), shape (raf_s c), shape (raf_tols c)]"


section \<open>Facts about arrays\<close>

lemma idx_lt: "i < r \<Longrightarrow> k < c \<Longrightarrow> i * c + k < r * (c::nat)"
proof -
  assume a: "i < r" "k < c"
  then have "i * c + k < i * c + c" by simp
  also have "\<dots> = Suc i * c" by simp
  also from a have "\<dots> \<le> r * c" by (intro mult_le_mono1) simp
  finally show ?thesis .
qed

lemma nrows_tabulate2 [simp]: "nrows (tabulate2 r c g) = r"
  by (simp add: tabulate2_def)

lemma ncols_tabulate2 [simp]: "ncols (tabulate2 r c g) = c"
  by (simp add: tabulate2_def)

lemma entry_tabulate2 [simp]: "i < r \<Longrightarrow> k < c \<Longrightarrow> entry (tabulate2 r c g) i k = g i k"
  using idx_lt [of i r k c] by (simp add: tabulate2_def entry_def)

lemma shape_zeros [simp]: "nrows (zeros sh) = fst sh" "ncols (zeros sh) = snd sh"
  by (simp_all add: zeros_def)

lemma entry_zeros [simp]: "i < fst sh \<Longrightarrow> k < snd sh \<Longrightarrow> entry (zeros sh) i k = 0"
  by (simp add: zeros_def)

lemma shape_scalar_op [simp]: "nrows (scalar_op f x) = nrows x" "ncols (scalar_op f x) = ncols x"
  by (simp_all add: scalar_op_def)

lemma entry_scalar_op [simp]:
  "i < nrows x \<Longrightarrow> k < ncols x \<Longrightarrow> entry (scalar_op f x) i k = f (entry x i k)"
  by (simp add: scalar_op_def)

lemma compat_simps [simp]: "compat n n" "compat n 1" "compat 1 n" "compat n (Suc 0)" "compat (Suc 0) n"
  by (simp_all add: compat_def)

lemma bdim_simps [simp]: "bdim n n = n" "bdim n 1 = n" "bdim 1 n = n" "bdim n (Suc 0) = n" "bdim (Suc 0) n = n"
  by (simp_all add: bdim_def)

lemma bidx_lt [simp]: "i < n \<Longrightarrow> bidx n i = i"
  by (auto simp add: bidx_def)

lemma bidx_one [simp]: "bidx 1 i = 0" "bidx (Suc 0) i = 0"
  by (simp_all add: bidx_def)

lemma shape_stretch [simp]:
  "nrows (stretch f x y) = bdim (nrows x) (nrows y)"
  "ncols (stretch f x y) = bdim (ncols x) (ncols y)"
  by (simp_all add: stretch_def)

lemma entry_stretch [simp]:
  "i < bdim (nrows x) (nrows y) \<Longrightarrow> k < bdim (ncols x) (ncols y) \<Longrightarrow>
   entry (stretch f x y) i k =
     f (entry x (bidx (nrows x) i) (bidx (ncols x) k)) (entry y (bidx (nrows y) i) (bidx (ncols y) k))"
  by (simp add: stretch_def)

lemma broadcast_ok:
  "compat (nrows x) (nrows y) \<Longrightarrow> compat (ncols x) (ncols y) \<Longrightarrow> broadcast f x y = Inr (stretch f x y)"
  by (simp add: broadcast_def)

lemma and_then_simps [simp]: "and_then (Inr a) f = f a" "and_then (Inl e) f = Inl e"
  by (simp_all add: and_then_def)

lemma shape_softmax [simp]: "nrows (softmax x) = nrows x" "ncols (softmax x) = ncols x"
  by (simp_all add: softmax_def)

lemma entry_softmax:
  "i < nrows x \<Longrightarrow> k < ncols x \<Longrightarrow>
   entry (softmax x) i k = exp (entry x i k) / sum_list (map (\<lambda>n. exp (entry x i n)) [0..<ncols x])"
  by (simp add: softmax_def)

lemma shape_sum_axis1 [simp]: "nrows (sum_axis1 x) = nrows x" "ncols (sum_axis1 x) = 1"
  by (simp_all add: sum_axis1_def)

lemma entry_sum_axis1 [simp]:
  "i < nrows x \<Longrightarrow> entry (sum_axis1 x) i 0 = sum_list (map (entry x i) [0..<ncols x])"
  by (simp add: sum_axis1_def)


section \<open>One step of the WTAS cell on arrays of one shape\<close>

lemma run_cell_same_shape:
  assumes "shape j = (r, c)" "shape rfr = (r, c)" "shape v_thr = (r, c)"
  shows "\<exists>v' s' thr' rfr'.
     run_cell dt j v rfr v_thr tau_m R_m thr_gain refract_T = Inr (v', s', thr', rfr')
     \<and> shape v' = (r, c) \<and> shape s' = (r, c) \<and> shape thr' = (r, c) \<and> shape rfr' = (r, c)
     \<and> (\<forall>i<r. \<forall>k<c.
          entry v' i k = (entry j i k * R_m) * (if entry rfr i k \<ge> refract_T then 1 else 0)
        \<and> entry s' i k = (if entry (softmax v') i k > entry v_thr i k then 1 else 0)
        \<and> entry thr' i k = max (entry v_thr i k + (sum_list (map (entry s' i) [0..<c]) - 1) * thr_gain) 0.025
        \<and> entry rfr' i k = (entry rfr i k + dt) * (1 - entry s' i k) + entry s' i k * dt)"
  using assms
  by (simp add: run_cell_def shape_def broadcast_ok Let_def)

lemma update_times_same_shape:
  assumes "shape s = (r, c)" "shape tols = (r, c)"
  shows "\<exists>tols'. update_times t s tols = Inr tols' \<and> shape tols' = (r, c)
     \<and> (\<forall>i<r. \<forall>k<c. entry tols' i k = (1 - entry s i k) * entry tols i k + entry s i k * t)"
  using assms by (simp add: update_times_def shape_def broadcast_ok)

lemma WTAS_advance_same_shape:
  assumes "shape j = (r, c)" "shape rfr = (r, c)" "shape thr = (r, c)" "shape tols = (r, c)"
  shows "\<exists>v' s' thr' rfr' tols'.
     WTAS_advance_state_pure t dt tau_m R_m thr_gain refract_T j v s thr rfr tols
       = Inr (v', s', thr', rfr', tols')
     \<and> shape v' = (r, c) \<and> shape s' = (r, c) \<and> shape thr' = (r, c) \<and> shape rfr' = (r, c)
     \<and> shape tols' = (r, c)
     \<and> (\<forall>i<r. \<forall>k<c.
          entry v' i k = (entry j i k * R_m) * (if entry rfr i k \<ge> refract_T then 1 else 0)
        \<and> entry s' i k = (if entry (softmax v') i k > entry thr i k then 1 else 0)
        \<and> entry thr' i k = max (entry thr i k + (sum_list (map (entry s' i) [0..<c]) - 1) * thr_gain) 0.025
        \<and> entry rfr' i k = (entry rfr i k + dt) * (1 - entry s' i k) + entry s' i k * dt
        \<and> entry tols' i k = (1 - entry s' i k) * entry tols i k + entry s' i k * t)"
proof -
  from run_cell_same_shape [OF assms(1-3), of dt v tau_m R_m thr_gain refract_T]
  obtain v' s' thr' rfr' where
    rc: "run_cell dt j v rfr thr tau_m R_m thr_gain refract_T = Inr (v', s', thr', rfr')"
    and sh: "shape v' = (r, c)" "shape s' = (r, c)" "shape thr' = (r, c)" "shape rfr' = (r, c)"
    and el: "\<forall>i<r. \<forall>k<c.
          entry v' i k = (entry j i k * R_m) * (if entry rfr i k \<ge> refract_T then 1 else 0)
        \<and> entry s' i k = (if entry (softmax v') i k > entry thr i k then 1 else 0)
        \<and> entry thr' i k = max (entry thr i k + (sum_list (map (entry s' i) [0..<c]) - 1) * thr_gain) 0.025
        \<and> entry rfr' i k = (entry rfr i k + dt) * (1 - entry s' i k) + entry s' i k * dt"
    by blast
  from update_times_same_shape [OF sh(2) assms(4), of t]
  obtain tols' where ut: "update_times t s' tols = Inr tols'" and sht: "shape tols' = (r, c)"
    and elt: "\<forall>i<r. \<forall>k<c. entry tols' i k = (1 - entry s' i k) * entry tols i k + entry s' i k * t"
    by blast
  have "WTAS_advance_state_pure t dt tau_m R_m thr_gain refract_T j v s thr rfr tols
       = Inr (v', s', thr', rfr', tols')"
    by (simp add: WTAS_advance_state_pure_def rc ut)
  with sh sht el elt show ?thesis by blast
qed

lemma tabulate2_1_1: "tabulate2 (Suc 0) (Suc 0) g = Tensor 1 1 [g 0 0]"
  by (simp add: tabulate2_def)

lemma entry_single: "entry (Tensor r c [x]) 0 0 = x"
  by (simp add: entry_def)

lemma run_cell_floor:
  assumes "run_cell dt j v rfr v_thr tau_m R_m thr_gain refract_T = Inr (v', s', thr', rfr')"
    and "i < nrows thr'" "k < ncols thr'"
  shows "0.025 \<le> entry thr' i k"
  using assms
  by (auto simp add: run_cell_def and_then_def Let_def split: sum.splits)

lemma secant_lif_d_spike_fx_value:
  "secant_lif_d_spike_fx j thr c1 c2 omit_scale
     = (1 / ((exp (j * c2) + exp (- (j * c2))) / 2))
       * (if omit_scale then 1 else c1 * c2)
       * (if j > 0 then 1 else 0)"
  by (simp add: secant_lif_d_spike_fx_def Let_def)

lemma sech_between:
  fixes x :: real
  assumes "x \<noteq> 0"
  shows "0 < 1 / ((exp x + exp (- x)) / 2)" and "1 / ((exp x + exp (- x)) / 2) < 1"
proof -
  have "cosh x \<noteq> 1" using assms by (simp add: cosh_real_one_iff)
  moreover have "1 \<le> cosh x" by (rule cosh_real_ge_1)
  ultimately have "1 < cosh x" by linarith
  then have c: "1 < (exp x + exp (- x)) / 2" by (simp add: cosh_field_def)
  then show "0 < 1 / ((exp x + exp (- x)) / 2)" by simp
  from c show "1 / ((exp x + exp (- x)) / 2) < 1" by simp
qed


section \<open>The secant LIF surrogate derivative\<close>

text \<open>
  Claim C1.  The claim (and the docstring of \<open>d_spike_fx\<close>: "scale * sech^2(c2 * j) for
  j > 0") says that the surrogate is the squared hyperbolic secant.  The code returns the
  hyperbolic secant itself: \<open>dv_dj = sech_j\<close> is never squared.  At the default arguments
  and current \<open>j = 1\<close> the function returns \<open>sech 0.08\<close>, which differs from
  \<open>sech\<^sup>2 0.08\<close>.
\<close>

theorem secant_lif_d_spike_fx_is_sech_not_sech_squared:
  "secant_lif_d_spike_fx 1 0 0.82 0.08 True = 1 / ((exp 0.08 + exp (- 0.08)) / 2)
   \<and> secant_lif_d_spike_fx 1 0 0.82 0.08 True \<noteq> (1 / ((exp 0.08 + exp (- 0.08)) / 2))\<^sup>2"
proof -
  define y :: real where "y = 1 / ((exp 0.08 + exp (- 0.08)) / 2)"
  have v: "secant_lif_d_spike_fx 1 0 0.82 0.08 True = y"
    by (simp add: secant_lif_d_spike_fx_def y_def Let_def)
  have "0 < y" "y < 1"
    using sech_between [of "0.08"] by (simp_all add: y_def)
  then have "y \<noteq> y\<^sup>2" by (simp add: power2_eq_square)
  with v show ?thesis unfolding y_def by simp
qed


section \<open>Refractory units of the WTAS cell\<close>

text \<open>
  Claim C2, as amended.  In a step on arrays of one shape, a unit whose refractory timer is
  below \<open>refract_T\<close> gets voltage exactly 0.  Its spike is not suppressed: the softmax of a
  zero voltage is \<open>1 / (\<Sum>n. exp (v' i n))\<close>, and the unit spikes exactly when that share
  exceeds its own threshold.
\<close>

theorem WTAS_refractory_unit:
  assumes "shape j = (r, c)" "shape rfr = (r, c)" "shape thr = (r, c)" "shape tols = (r, c)"
    and "i < r" "k < c" and "entry rfr i k < refract_T"
  shows "\<exists>v' s' thr' rfr' tols'.
     WTAS_advance_state_pure t dt tau_m R_m thr_gain refract_T j v s thr rfr tols
       = Inr (v', s', thr', rfr', tols')
     \<and> entry v' i k = 0
     \<and> entry s' i k =
         (if 1 / sum_list (map (\<lambda>n. exp (entry v' i n)) [0..<c]) > entry thr i k then 1 else 0)"
proof -
  from WTAS_advance_same_shape [OF assms(1-4), of t dt tau_m R_m thr_gain refract_T v s]
  obtain v' s' thr' rfr' tols' where
    adv: "WTAS_advance_state_pure t dt tau_m R_m thr_gain refract_T j v s thr rfr tols
       = Inr (v', s', thr', rfr', tols')"
    and sh: "shape v' = (r, c)"
    and el: "\<forall>i<r. \<forall>k<c.
          entry v' i k = (entry j i k * R_m) * (if entry rfr i k \<ge> refract_T then 1 else 0)
        \<and> entry s' i k = (if entry (softmax v') i k > entry thr i k then 1 else 0)
        \<and> entry thr' i k = max (entry thr i k + (sum_list (map (entry s' i) [0..<c]) - 1) * thr_gain) 0.025
        \<and> entry rfr' i k = (entry rfr i k + dt) * (1 - entry s' i k) + entry s' i k * dt
        \<and> entry tols' i k = (1 - entry s' i k) * entry tols i k + entry s' i k * t"
    by blast
  from el assms(5-7) have v0: "entry v' i k = 0" by simp
  from sh assms(5,6) have "entry (softmax v') i k
      = exp (entry v' i k) / sum_list (map (\<lambda>n. exp (entry v' i n)) [0..<c])"
    by (simp add: entry_softmax shape_def)
  with v0 have sm: "entry (softmax v') i k = 1 / sum_list (map (\<lambda>n. exp (entry v' i n)) [0..<c])"
    by simp
  from el assms(5,6) have "entry s' i k = (if entry (softmax v') i k > entry thr i k then 1 else 0)"
    by simp
  with sm v0 adv show ?thesis by auto
qed

theorem WTAS_refractory_unit_witness:
  "\<exists>v' s' thr' rfr' tols'.
     WTAS_advance_state_pure 5 1 1 1 0.002 1 (Tensor 1 2 [1, 3]) (Tensor 1 2 [0, 0])
         (Tensor 1 2 [0, 0]) (Tensor 1 2 [0.4, 0.4]) (Tensor 1 2 [0, 1]) (Tensor 1 2 [0, 0])
       = Inr (v', s', thr', rfr', tols')
     \<and> entry v' 0 0 = 0
     \<and> entry s' 0 0 =
         (if 1 / sum_list (map (\<lambda>n. exp (entry v' 0 n)) [0..<2]) > 0.4 then 1 else 0)"
  using WTAS_refractory_unit [of "Tensor 1 2 [1, 3]" 1 2 "Tensor 1 2 [0, 1]" "Tensor 1 2 [0.4, 0.4]"
      "Tensor 1 2 [0, 0]" 0 0 1 5 1 1 1 "0.002" "Tensor 1 2 [0, 0]" "Tensor 1 2 [0, 0]"]
  by (simp add: shape_def entry_def)

text \<open>
  The claim as stated fails: a population of one unit that is refractory (timer 0 below
  \<open>refract_T = 1\<close>) has voltage 0, softmax share 1, and spikes over its threshold 0.4.
\<close>

theorem WTAS_refractory_unit_can_spike:
  "entry (Tensor 1 1 [0]) 0 0 < (1::real)
   \<and> WTAS_advance_state_pure 5 1 1 1 0.002 1 (Tensor 1 1 [1]) (Tensor 1 1 [0]) (Tensor 1 1 [0])
         (Tensor 1 1 [0.4]) (Tensor 1 1 [0]) (Tensor 1 1 [0])
       = Inr (Tensor 1 1 [0], Tensor 1 1 [1], Tensor 1 1 [0.4], Tensor 1 1 [1], Tensor 1 1 [5])"
  by (simp add: WTAS_advance_state_pure_def run_cell_def update_times_def broadcast_def stretch_def
      scalar_op_def softmax_def sum_axis1_def tabulate2_1_1 entry_single Let_def)

section \<open>The threshold floor of the WTAS cell\<close>

lemma WTAS_advance_floor:
  assumes "WTAS_advance_state_pure t dt tau_m R_m thr_gain refract_T j v s thr rfr tols
       = Inr (v', s', thr', rfr', tols')"
    and "i < nrows thr'" "k < ncols thr'"
  shows "0.025 \<le> entry thr' i k"
proof -
  from assms(1) obtain v1 s1 r1 where
    "run_cell dt j v rfr thr tau_m R_m thr_gain refract_T = Inr (v1, s1, thr', r1)"
    by (auto simp add: WTAS_advance_state_pure_def and_then_def split: sum.splits)
  from run_cell_floor [OF this assms(2,3)] show ?thesis .
qed

text \<open>
  Claim C4.  Whatever the shapes, a step that completes leaves every element of the adaptive
  threshold at 0.025 or above.  On arrays of one shape the step completes, and the new
  threshold of unit \<open>(i, k)\<close> is
  \<open>max (thr + ((sum of the spikes of row i) - 1) * thr_gain) 0.025\<close>.
\<close>

theorem WTAS_threshold_floor:
  "(WTAS_advance_state_pure t dt tau_m R_m thr_gain refract_T j v s thr rfr tols
       = Inr (v', s', thr', rfr', tols')
      \<longrightarrow> (\<forall>i<nrows thr'. \<forall>k<ncols thr'. 0.025 \<le> entry thr' i k))
   \<and> (shape j = (r, c) \<and> shape rfr = (r, c) \<and> shape thr = (r, c) \<and> shape tols = (r, c)
      \<longrightarrow> (\<exists>v' s' thr' rfr' tols'.
            WTAS_advance_state_pure t dt tau_m R_m thr_gain refract_T j v s thr rfr tols
              = Inr (v', s', thr', rfr', tols')
            \<and> shape thr' = (r, c)
            \<and> (\<forall>i<r. \<forall>k<c.
                 entry thr' i k
                   = max (entry thr i k + (sum_list (map (entry s' i) [0..<c]) - 1) * thr_gain) 0.025
                 \<and> 0.025 \<le> entry thr' i k)))"
proof (intro conjI impI)
  assume "WTAS_advance_state_pure t dt tau_m R_m thr_gain refract_T j v s thr rfr tols
       = Inr (v', s', thr', rfr', tols')"
  then show "\<forall>i<nrows thr'. \<forall>k<ncols thr'. 0.025 \<le> entry thr' i k"
    using WTAS_advance_floor by blast
next
  assume sh: "shape j = (r, c) \<and> shape rfr = (r, c) \<and> shape thr = (r, c) \<and> shape tols = (r, c)"
  then have "\<exists>v' s' thr' rfr' tols'.
     WTAS_advance_state_pure t dt tau_m R_m thr_gain refract_T j v s thr rfr tols
       = Inr (v', s', thr', rfr', tols')
     \<and> shape v' = (r, c) \<and> shape s' = (r, c) \<and> shape thr' = (r, c) \<and> shape rfr' = (r, c)
     \<and> shape tols' = (r, c)
     \<and> (\<forall>i<r. \<forall>k<c.
          entry v' i k = (entry j i k * R_m) * (if entry rfr i k \<ge> refract_T then 1 else 0)
        \<and> entry s' i k = (if entry (softmax v') i k > entry thr i k then 1 else 0)
        \<and> entry thr' i k = max (entry thr i k + (sum_list (map (entry s' i) [0..<c]) - 1) * thr_gain) 0.025
        \<and> entry rfr' i k = (entry rfr i k + dt) * (1 - entry s' i k) + entry s' i k * dt
        \<and> entry tols' i k = (1 - entry s' i k) * entry tols i k + entry s' i k * t)"
    by (intro WTAS_advance_same_shape) simp_all
  then obtain v' s' thr' rfr' tols' where
    adv: "WTAS_advance_state_pure t dt tau_m R_m thr_gain refract_T j v s thr rfr tols
       = Inr (v', s', thr', rfr', tols')"
    and sht: "shape thr' = (r, c)"
    and el: "\<forall>i<r. \<forall>k<c. entry thr' i k
        = max (entry thr i k + (sum_list (map (entry s' i) [0..<c]) - 1) * thr_gain) 0.025"
    by blast
  from el have "\<forall>i<r. \<forall>k<c. 0.025 \<le> entry thr' i k" by simp
  with adv sht el show "\<exists>v' s' thr' rfr' tols'.
            WTAS_advance_state_pure t dt tau_m R_m thr_gain refract_T j v s thr rfr tols
              = Inr (v', s', thr', rfr', tols')
            \<and> shape thr' = (r, c)
            \<and> (\<forall>i<r. \<forall>k<c.
                 entry thr' i k
                   = max (entry thr i k + (sum_list (map (entry s' i) [0..<c]) - 1) * thr_gain) 0.025
                 \<and> 0.025 \<le> entry thr' i k)"
    by blast
qed

lemma WTAS_silent_unit_step:
  "WTAS_advance_state_pure 5 1 1 1 2 0 (Tensor 1 1 [3]) (Tensor 1 1 [0]) (Tensor 1 1 [0])
         (Tensor 1 1 [1]) (Tensor 1 1 [0]) (Tensor 1 1 [4])
       = Inr (Tensor 1 1 [3], Tensor 1 1 [0], Tensor 1 1 [0.025], Tensor 1 1 [1], Tensor 1 1 [4])"
  by (simp add: WTAS_advance_state_pure_def run_cell_def update_times_def broadcast_def stretch_def
      scalar_op_def softmax_def sum_axis1_def tabulate2_1_1 entry_single Let_def)

theorem WTAS_threshold_floor_witness:
  "WTAS_advance_state_pure 5 1 1 1 2 0 (Tensor 1 1 [3]) (Tensor 1 1 [0]) (Tensor 1 1 [0])
         (Tensor 1 1 [1]) (Tensor 1 1 [0]) (Tensor 1 1 [4])
       = Inr (Tensor 1 1 [3], Tensor 1 1 [0], Tensor 1 1 [0.025], Tensor 1 1 [1], Tensor 1 1 [4])
   \<and> 0.025 \<le> entry (Tensor 1 1 [0.025]) 0 0
   \<and> entry (Tensor 1 1 [0.025]) 0 0
       = max (entry (Tensor 1 1 [1]) 0 0 + (sum_list (map (entry (Tensor 1 1 [0]) 0) [0..<1]) - 1) * 2) 0.025"
  using WTAS_threshold_floor [of 5 1 1 1 2 0 "Tensor 1 1 [3]" "Tensor 1 1 [0]" "Tensor 1 1 [0]"
      "Tensor 1 1 [1]" "Tensor 1 1 [0]" "Tensor 1 1 [4]"
      "Tensor 1 1 [3]" "Tensor 1 1 [0]" "Tensor 1 1 [0.025]" "Tensor 1 1 [1]" "Tensor 1 1 [4]" 1 1]
    WTAS_silent_unit_step
  by (simp add: shape_def)

section \<open>Reset of the WTAS cell\<close>

lemma scalar_op_zeros: "scalar_op f (zeros (b, n)) = tabulate2 b n (\<lambda>i k. f 0)"
proof -
  have "m < b * n \<Longrightarrow> entry (zeros (b, n)) (m div n) (m mod n) = 0" for m
  proof -
    assume a: "m < b * n"
    then have "0 < n" by (cases n) simp_all
    moreover from a have "m div n < b" by (simp add: less_mult_imp_div_less)
    ultimately show ?thesis by simp
  qed
  then show ?thesis
    by (simp add: scalar_op_def tabulate2_def)
qed

text \<open>
  Claim C9.  \<open>reset\<close> stores zero arrays of shape \<open>(batch_size, n_units)\<close> in the input
  current, the voltage, the spikes and the time of last spike, stores the array whose every
  element is \<open>refract_T\<close> in the refractory timer, and leaves the adaptive threshold as it
  was.
\<close>

theorem WTAS_reset_frame:
  "wtas_j (WTAS_reset c) = zeros (wtas_batch_size c, wtas_n_units c)
   \<and> wtas_v (WTAS_reset c) = zeros (wtas_batch_size c, wtas_n_units c)
   \<and> wtas_s (WTAS_reset c) = zeros (wtas_batch_size c, wtas_n_units c)
   \<and> wtas_rfr (WTAS_reset c)
       = tabulate2 (wtas_batch_size c) (wtas_n_units c) (\<lambda>i k. wtas_refract_T c)
   \<and> wtas_tols (WTAS_reset c) = zeros (wtas_batch_size c, wtas_n_units c)
   \<and> wtas_thr (WTAS_reset c) = wtas_thr c"
  by (simp add: WTAS_reset_def WTAS_reset_pure_def Let_def scalar_op_zeros)

section \<open>The membrane time constant of the WTAS cell\<close>

text \<open>
  Claim C10.  Two WTAS steps on the same state and inputs that differ only in \<open>tau_m\<close>
  return the same result (the same error, or the same voltage, spikes, threshold,
  refractory timer and time of last spike): \<open>run_cell\<close> takes \<open>tau_m\<close> and never reads
  it.  The same holds for \<open>advance_state\<close> on two cells that differ only in their
  \<open>tau_m\<close>.
\<close>

theorem WTAS_step_ignores_tau_m:
  "run_cell dt j v rfr thr tau_m R_m thr_gain refract_T
     = run_cell dt j v rfr thr tau_m' R_m thr_gain refract_T
   \<and> WTAS_advance_state_pure t dt tau_m R_m thr_gain refract_T j v s thr rfr tols
     = WTAS_advance_state_pure t dt tau_m' R_m thr_gain refract_T j v s thr rfr tols
   \<and> map_sum id (\<lambda>c'. (wtas_v c', wtas_s c', wtas_thr c', wtas_rfr c', wtas_tols c'))
        (WTAS_advance_state (cell\<lparr>wtas_tau_m := tau_m\<rparr>) t dt)
     = map_sum id (\<lambda>c'. (wtas_v c', wtas_s c', wtas_thr c', wtas_rfr c', wtas_tols c'))
        (WTAS_advance_state (cell\<lparr>wtas_tau_m := tau_m'\<rparr>) t dt)"
  by (simp add: run_cell_def WTAS_advance_state_pure_def WTAS_advance_state_def and_then_def
      split: sum.splits prod.splits)

section \<open>One step of the RAF cell on arrays of one shape\<close>

lemma RAF_integrate_same_shape:
  assumes "shape j_scaled = (r, c)" "shape v = (r, c)" "shape w = (r, c)"
  shows "\<exists>w' v'.
     RAF_integrate intgFlag dt tau_m tau_w omega b j_scaled v w = Inr (w', v')
     \<and> shape w' = (r, c) \<and> shape v' = (r, c)
     \<and> (\<forall>i<r. \<forall>k<c.
          (let W = entry w i k; V = entry v i k; J = entry j_scaled i k;
               dw = (\<lambda>x. (x * b - V * omega + J) * (1 / tau_w));
               dv = (\<lambda>x. (omega * W + x * b) * (1 / tau_m))
           in entry w' i k = (if intgFlag = 1 then W + dw (W + dw W * (dt / 2)) * dt
                              else W + dw W * dt)
            \<and> entry v' i k = (if intgFlag = 1 then V + dv (V + dv V * (dt / 2)) * dt
                              else V + dv V * dt)))"
  using assms
  by (simp add: RAF_integrate_def step_euler_def step_rk2_def dfw_def dfv_def dfw_internal_def
      dfv_internal_def shape_def broadcast_ok Let_def)

lemma raf_update_times_same_shape:
  assumes "shape s = (r, c)" "shape tols = (r, c)"
  shows "\<exists>tols'. raf_update_times t s tols = Inr tols' \<and> shape tols' = (r, c)
     \<and> (\<forall>i<r. \<forall>k<c. entry tols' i k = (1 - entry s i k) * entry tols i k + entry s i k * t)"
  using assms by (simp add: raf_update_times_def shape_def broadcast_ok)

lemma RAF_advance_same_shape:
  assumes "shape j = (r, c)" "shape v = (r, c)" "shape w = (r, c)" "shape tols = (r, c)"
  shows "\<exists>w' v' vo wo s' tols'.
     RAF_integrate intgFlag dt tau_m tau_w omega b (scalar_op (\<lambda>x. x * R_m) j) v w = Inr (w', v')
     \<and> RAF_advance_state_pure t dt tau_m R_m tau_w thr omega b v_rest v_reset w_reset intgFlag
          j v w tols = Inr (j, vo, wo, s', tols')
     \<and> shape w' = (r, c) \<and> shape v' = (r, c)
     \<and> shape vo = (r, c) \<and> shape wo = (r, c) \<and> shape s' = (r, c) \<and> shape tols' = (r, c)
     \<and> (\<forall>i<r. \<forall>k<c.
          (let W = entry w i k; V = entry v i k; J = entry j i k * R_m;
               dw = (\<lambda>x. (x * b - V * omega + J) * (1 / tau_w));
               dv = (\<lambda>x. (omega * W + x * b) * (1 / tau_m))
           in entry w' i k = (if intgFlag = 1 then W + dw (W + dw W * (dt / 2)) * dt
                              else W + dw W * dt)
            \<and> entry v' i k = (if intgFlag = 1 then V + dv (V + dv V * (dt / 2)) * dt
                              else V + dv V * dt))
        \<and> entry s' i k = (if entry v' i k > thr then 1 else 0)
        \<and> entry vo i k = entry v' i k * (1 - entry s' i k) + entry s' i k * v_reset
        \<and> entry wo i k = entry w' i k * (1 - entry s' i k) + entry s' i k * w_reset
        \<and> entry tols' i k = (1 - entry s' i k) * entry tols i k + entry s' i k * t)"
proof -
  have shj: "shape (scalar_op (\<lambda>x. x * R_m) j) = (r, c)"
    using assms(1) by (simp add: shape_def)
  from RAF_integrate_same_shape [OF shj assms(2,3), of intgFlag dt tau_m tau_w omega b]
  obtain w' v' where
    ig: "RAF_integrate intgFlag dt tau_m tau_w omega b (scalar_op (\<lambda>x. x * R_m) j) v w = Inr (w', v')"
    and sh: "shape w' = (r, c)" "shape v' = (r, c)"
    and el: "\<forall>i<r. \<forall>k<c.
          (let W = entry w i k; V = entry v i k; J = entry (scalar_op (\<lambda>x. x * R_m) j) i k;
               dw = (\<lambda>x. (x * b - V * omega + J) * (1 / tau_w));
               dv = (\<lambda>x. (omega * W + x * b) * (1 / tau_m))
           in entry w' i k = (if intgFlag = 1 then W + dw (W + dw W * (dt / 2)) * dt
                              else W + dw W * dt)
            \<and> entry v' i k = (if intgFlag = 1 then V + dv (V + dv V * (dt / 2)) * dt
                              else V + dv V * dt))"
    by blast
  have el': "\<forall>i<r. \<forall>k<c.
          (let W = entry w i k; V = entry v i k; J = entry j i k * R_m;
               dw = (\<lambda>x. (x * b - V * omega + J) * (1 / tau_w));
               dv = (\<lambda>x. (omega * W + x * b) * (1 / tau_m))
           in entry w' i k = (if intgFlag = 1 then W + dw (W + dw W * (dt / 2)) * dt
                              else W + dw W * dt)
            \<and> entry v' i k = (if intgFlag = 1 then V + dv (V + dv V * (dt / 2)) * dt
                              else V + dv V * dt))"
    using el assms(1) by (simp add: shape_def Let_def)
  define s' where "s' = emit_spike v' thr"
  have shs: "shape s' = (r, c)" using sh by (simp add: s'_def emit_spike_def shape_def)
  from raf_update_times_same_shape [OF shs assms(4), of t]
  obtain tols' where ut: "raf_update_times t s' tols = Inr tols'" and sht: "shape tols' = (r, c)"
    and elt: "\<forall>i<r. \<forall>k<c. entry tols' i k = (1 - entry s' i k) * entry tols i k + entry s' i k * t"
    by blast
  define vo where "vo = stretch (+) (stretch (*) v' (scalar_op (\<lambda>x. 1 - x) s')) (scalar_op (\<lambda>x. x * v_reset) s')"
  define wo where "wo = stretch (+) (stretch (*) w' (scalar_op (\<lambda>x. 1 - x) s')) (scalar_op (\<lambda>x. x * w_reset) s')"
  have adv: "RAF_advance_state_pure t dt tau_m R_m tau_w thr omega b v_rest v_reset w_reset intgFlag
          j v w tols = Inr (j, vo, wo, s', tols')"
    using sh shs ut
    by (simp add: RAF_advance_state_pure_def ig Let_def s'_def [symmetric] shape_def broadcast_ok
        vo_def wo_def)
  have sho: "shape vo = (r, c)" "shape wo = (r, c)"
    using sh shs by (simp_all add: vo_def wo_def shape_def)
  have els: "\<forall>i<r. \<forall>k<c. entry s' i k = (if entry v' i k > thr then 1 else 0)
        \<and> entry vo i k = entry v' i k * (1 - entry s' i k) + entry s' i k * v_reset
        \<and> entry wo i k = entry w' i k * (1 - entry s' i k) + entry s' i k * w_reset"
    using sh shs by (simp add: vo_def wo_def shape_def) (simp add: s'_def emit_spike_def)
  from ig adv sh sho shs sht el' els elt show ?thesis by blast
qed


section \<open>Hyperpolarization of the RAF cell\<close>

text \<open>
  Claim C3.  In a step on arrays of one shape the integration block yields candidates
  \<open>(w', v')\<close> and the step completes; every spike is 1 or 0; where the spike is 1 the new
  voltage is exactly \<open>v_reset\<close> and the new angular driver exactly \<open>w_reset\<close>; where it is
  0 they are exactly the candidates.  This holds for the Euler and for the midpoint
  integrator (any \<open>intgFlag\<close>).  The time constants are taken different from 0, where
  the division of the model is the division of the code.
\<close>

theorem RAF_hyperpolarization:
  assumes "shape j = (r, c)" "shape v = (r, c)" "shape w = (r, c)" "shape tols = (r, c)"
    and "tau_m \<noteq> 0" "tau_w \<noteq> 0"
  shows "\<exists>w' v' vo wo s' tols'.
     RAF_integrate intgFlag dt tau_m tau_w omega b (scalar_op (\<lambda>x. x * R_m) j) v w = Inr (w', v')
     \<and> RAF_advance_state_pure t dt tau_m R_m tau_w thr omega b v_rest v_reset w_reset intgFlag
          j v w tols = Inr (j, vo, wo, s', tols')
     \<and> (\<forall>i<r. \<forall>k<c.
          (entry s' i k = 1 \<or> entry s' i k = 0)
        \<and> (entry s' i k = 1 \<longrightarrow> entry vo i k = v_reset \<and> entry wo i k = w_reset)
        \<and> (entry s' i k = 0 \<longrightarrow> entry vo i k = entry v' i k \<and> entry wo i k = entry w' i k))"
proof -
  from RAF_advance_same_shape [OF assms(1-4), of intgFlag dt tau_m tau_w omega b R_m t thr v_rest
      v_reset w_reset]
  obtain w' v' vo wo s' tols' where
    ig: "RAF_integrate intgFlag dt tau_m tau_w omega b (scalar_op (\<lambda>x. x * R_m) j) v w = Inr (w', v')"
    and adv: "RAF_advance_state_pure t dt tau_m R_m tau_w thr omega b v_rest v_reset w_reset intgFlag
          j v w tols = Inr (j, vo, wo, s', tols')"
    and el: "\<forall>i<r. \<forall>k<c.
          entry s' i k = (if entry v' i k > thr then 1 else 0)
        \<and> entry vo i k = entry v' i k * (1 - entry s' i k) + entry s' i k * v_reset
        \<and> entry wo i k = entry w' i k * (1 - entry s' i k) + entry s' i k * w_reset"
    by blast
  have "(entry s' i k = 1 \<or> entry s' i k = 0)
        \<and> (entry s' i k = 1 \<longrightarrow> entry vo i k = v_reset \<and> entry wo i k = w_reset)
        \<and> (entry s' i k = 0 \<longrightarrow> entry vo i k = entry v' i k \<and> entry wo i k = entry w' i k)"
    if "i < r" "k < c" for i k
  proof -
    from el that have s: "entry s' i k = (if entry v' i k > thr then 1 else 0)"
      and vo: "entry vo i k = entry v' i k * (1 - entry s' i k) + entry s' i k * v_reset"
      and wo: "entry wo i k = entry w' i k * (1 - entry s' i k) + entry s' i k * w_reset"
      by simp_all
    from s have "entry s' i k = 1 \<or> entry s' i k = 0" by simp
    moreover have "entry vo i k = v_reset \<and> entry wo i k = w_reset" if "entry s' i k = 1"
      using vo wo that by simp
    moreover have "entry vo i k = entry v' i k \<and> entry wo i k = entry w' i k" if "entry s' i k = 0"
      using vo wo that by simp
    ultimately show ?thesis by blast
  qed
  with ig adv show ?thesis by blast
qed

theorem RAF_hyperpolarization_witness:
  "(1::real) \<noteq> 0 \<and> (400::real) \<noteq> 0 \<and>
   (\<exists>w' v' vo wo s' tols'.
     RAF_integrate 0 1 1 400 10 (- 1) (scalar_op (\<lambda>x. x * 1) (Tensor 1 1 [10]))
         (Tensor 1 1 [4]) (Tensor 1 1 [2]) = Inr (w', v')
     \<and> RAF_advance_state_pure 3 1 1 1 400 5 10 (- 1) (- 72) (- 75) 0 0
          (Tensor 1 1 [10]) (Tensor 1 1 [4]) (Tensor 1 1 [2]) (Tensor 1 1 [0])
        = Inr (Tensor 1 1 [10], vo, wo, s', tols')
     \<and> entry v' 0 0 = 20 \<and> entry s' 0 0 = 1 \<and> entry vo 0 0 = - 75 \<and> entry wo 0 0 = 0)"
proof -
  from RAF_advance_same_shape [of "Tensor 1 1 [10]" 1 1 "Tensor 1 1 [4]" "Tensor 1 1 [2]"
      "Tensor 1 1 [0]" 0 1 1 400 10 "- 1" 1 3 5 "- 72" "- 75" 0]
  obtain w' v' vo wo s' tols' where
    ig: "RAF_integrate 0 1 1 400 10 (- 1) (scalar_op (\<lambda>x. x * 1) (Tensor 1 1 [10]))
         (Tensor 1 1 [4]) (Tensor 1 1 [2]) = Inr (w', v')"
    and adv: "RAF_advance_state_pure 3 1 1 1 400 5 10 (- 1) (- 72) (- 75) 0 0
          (Tensor 1 1 [10]) (Tensor 1 1 [4]) (Tensor 1 1 [2]) (Tensor 1 1 [0])
        = Inr (Tensor 1 1 [10], vo, wo, s', tols')"
    and v': "entry v' 0 0 = 20" and s': "entry s' 0 0 = 1"
    by (auto simp add: shape_def entry_single Let_def)
  from RAF_hyperpolarization [where j = "Tensor 1 1 [10]" and r = 1 and c = 1
      and v = "Tensor 1 1 [4]" and w = "Tensor 1 1 [2]" and tols = "Tensor 1 1 [0]"
      and tau_m = 1 and tau_w = 400 and intgFlag = 0 and dt = 1 and omega = 10 and b = "- 1"
      and R_m = 1 and t = 3 and thr = 5 and v_rest = "- 72" and v_reset = "- 75" and w_reset = 0]
  have "entry s' 0 0 = 1 \<longrightarrow> entry vo 0 0 = - 75 \<and> entry wo 0 0 = 0"
    using ig adv by (auto simp add: shape_def)
  with ig adv v' s' show ?thesis by auto
qed

section \<open>The coupling of the two RAF integrations\<close>

text \<open>
  Claim C5.  In a step on arrays of one shape, with \<open>W\<close>, \<open>V\<close> the angular driver and the
  voltage of a unit before the step and \<open>J\<close> its scaled current, the candidate driver is
  integrated along \<open>dw x = (x * b - V * omega + J) / tau_w\<close>, with the voltage held at its
  pre-step value \<open>V\<close>, and the candidate voltage along
  \<open>dv x = (omega * W + x * b) / tau_m\<close>, with the driver held at its pre-step value \<open>W\<close>
  (never at the candidate \<open>w'\<close>).  The Euler step is \<open>y + f y * dt\<close>, the midpoint step
  \<open>y + f (y + f y * (dt / 2)) * dt\<close>.  Spike, voltage and driver of the step are computed from
  these candidates.  The time constants are taken different from 0, where the division of the
  model is the division of the code.
\<close>

theorem RAF_uses_pre_step_values:
  assumes "shape j = (r, c)" "shape v = (r, c)" "shape w = (r, c)" "shape tols = (r, c)"
    and "tau_m \<noteq> 0" "tau_w \<noteq> 0"
  shows "\<exists>w' v' vo wo s' tols'.
     RAF_integrate intgFlag dt tau_m tau_w omega b (scalar_op (\<lambda>x. x * R_m) j) v w = Inr (w', v')
     \<and> RAF_advance_state_pure t dt tau_m R_m tau_w thr omega b v_rest v_reset w_reset intgFlag
          j v w tols = Inr (j, vo, wo, s', tols')
     \<and> (\<forall>i<r. \<forall>k<c.
          (let W = entry w i k; V = entry v i k; J = entry j i k * R_m;
               dw = (\<lambda>x. (x * b - V * omega + J) / tau_w);
               dv = (\<lambda>x. (omega * W + x * b) / tau_m)
           in entry w' i k = (if intgFlag = 1 then W + dw (W + dw W * (dt / 2)) * dt
                              else W + dw W * dt)
            \<and> entry v' i k = (if intgFlag = 1 then V + dv (V + dv V * (dt / 2)) * dt
                              else V + dv V * dt))
        \<and> entry s' i k = (if entry v' i k > thr then 1 else 0)
        \<and> entry vo i k = entry v' i k * (1 - entry s' i k) + entry s' i k * v_reset
        \<and> entry wo i k = entry w' i k * (1 - entry s' i k) + entry s' i k * w_reset)"
proof -
  from RAF_advance_same_shape [OF assms(1-4), of intgFlag dt tau_m tau_w omega b R_m t thr v_rest
      v_reset w_reset]
  obtain w' v' vo wo s' tols' where
    ig: "RAF_integrate intgFlag dt tau_m tau_w omega b (scalar_op (\<lambda>x. x * R_m) j) v w = Inr (w', v')"
    and adv: "RAF_advance_state_pure t dt tau_m R_m tau_w thr omega b v_rest v_reset w_reset intgFlag
          j v w tols = Inr (j, vo, wo, s', tols')"
    and el: "\<forall>i<r. \<forall>k<c.
          (let W = entry w i k; V = entry v i k; J = entry j i k * R_m;
               dw = (\<lambda>x. (x * b - V * omega + J) * (1 / tau_w));
               dv = (\<lambda>x. (omega * W + x * b) * (1 / tau_m))
           in entry w' i k = (if intgFlag = 1 then W + dw (W + dw W * (dt / 2)) * dt
                              else W + dw W * dt)
            \<and> entry v' i k = (if intgFlag = 1 then V + dv (V + dv V * (dt / 2)) * dt
                              else V + dv V * dt))
        \<and> entry s' i k = (if entry v' i k > thr then 1 else 0)
        \<and> entry vo i k = entry v' i k * (1 - entry s' i k) + entry s' i k * v_reset
        \<and> entry wo i k = entry w' i k * (1 - entry s' i k) + entry s' i k * w_reset"
    by blast
  from el have "\<forall>i<r. \<forall>k<c.
          (let W = entry w i k; V = entry v i k; J = entry j i k * R_m;
               dw = (\<lambda>x. (x * b - V * omega + J) / tau_w);
               dv = (\<lambda>x. (omega * W + x * b) / tau_m)
           in entry w' i k = (if intgFlag = 1 then W + dw (W + dw W * (dt / 2)) * dt
                              else W + dw W * dt)
            \<and> entry v' i k = (if intgFlag = 1 then V + dv (V + dv V * (dt / 2)) * dt
                              else V + dv V * dt))
        \<and> entry s' i k = (if entry v' i k > thr then 1 else 0)
        \<and> entry vo i k = entry v' i k * (1 - entry s' i k) + entry s' i k * v_reset
        \<and> entry wo i k = entry w' i k * (1 - entry s' i k) + entry s' i k * w_reset"
    by (simp add: Let_def)
  with ig adv show ?thesis by blast
qed

theorem RAF_uses_pre_step_values_witness:
  "(15::real) \<noteq> 0 \<and> (400::real) \<noteq> 0 \<and>
   (\<exists>w' v' vo wo s' tols'.
     RAF_integrate 1 1 15 400 10 (- 1) (scalar_op (\<lambda>x. x * 1) (Tensor 1 1 [10]))
         (Tensor 1 1 [- 70]) (Tensor 1 1 [0]) = Inr (w', v')
     \<and> RAF_advance_state_pure 3 1 15 1 400 5 10 (- 1) (- 72) (- 75) 0 1
          (Tensor 1 1 [10]) (Tensor 1 1 [- 70]) (Tensor 1 1 [0]) (Tensor 1 1 [0])
        = Inr (Tensor 1 1 [10], vo, wo, s', tols')
     \<and> entry w' 0 0 = 0 + (((0 + ((0 * (- 1) - (- 70) * 10 + 10 * 1) / 400) * (1 / 2)) * (- 1)
                             - (- 70) * 10 + 10 * 1) / 400) * 1
     \<and> entry v' 0 0 = - 70 + ((10 * 0 + (- 70 + ((10 * 0 + (- 70) * (- 1)) / 15) * (1 / 2)) * (- 1)) / 15) * 1
     \<and> entry s' 0 0 = 0
     \<and> entry vo 0 0 = entry v' 0 0
     \<and> entry wo 0 0 = entry w' 0 0)"
  using RAF_uses_pre_step_values [of "Tensor 1 1 [10]" 1 1 "Tensor 1 1 [- 70]" "Tensor 1 1 [0]"
      "Tensor 1 1 [0]" 15 400 1 1 10 "- 1" 1 3 5 "- 72" "- 75" 0]
  by (auto simp add: shape_def entry_single Let_def)

section \<open>Construction of the cells\<close>

lemma RAFCell_init_shapes:
  "raf_state_shapes (RAFCell_init name n_units tau_m resist_m tau_w omega thr v_rest v_reset
       w_reset b v0 w0 integration_type batch_size)
     = [(batch_size, n_units), (batch_size, n_units), (batch_size, n_units),
        (batch_size, n_units), (batch_size, n_units)]"
  by (simp add: raf_state_shapes_def RAFCell_init_def shape_def Let_def)

lemma WTASCell_init_shapes:
  "wtas_state_shapes (WTASCell_init name n_units tau_m R_m thr_base thr_gain refract_T thr_jitter
       key directory kwargs)
     = [(1, n_units), (1, n_units), (1, n_units), (1, n_units), (1, n_units), (1, n_units)]"
  by (simp add: wtas_state_shapes_def WTASCell_init_def shape_def Let_def random_uniform_def
      split: prod.splits)

lemma RAF_advance_state_same_shape:
  assumes "raf_state_shapes cell = [(r, c), (r, c), (r, c), (r, c), (r, c)]"
  shows "\<exists>cell'. RAF_advance_state cell t dt = Inr cell'
     \<and> raf_state_shapes cell' = [(r, c), (r, c), (r, c), (r, c), (r, c)]"
proof -
  from assms have sh: "shape (raf_j cell) = (r, c)" "shape (raf_v cell) = (r, c)"
    "shape (raf_w cell) = (r, c)" "shape (raf_tols cell) = (r, c)"
    by (simp_all add: raf_state_shapes_def)
  from RAF_advance_same_shape [OF sh, of "raf_intgFlag cell" dt "raf_tau_m cell" "raf_tau_w cell"
      "raf_omega cell" "raf_b cell" "raf_R_m cell" t "raf_thr cell" "raf_v_rest cell"
      "raf_v_reset cell" "raf_w_reset cell"]
  obtain vo wo s' tols' where
    adv: "RAF_advance_state_pure t dt (raf_tau_m cell) (raf_R_m cell) (raf_tau_w cell) (raf_thr cell)
       (raf_omega cell) (raf_b cell) (raf_v_rest cell) (raf_v_reset cell) (raf_w_reset cell)
       (raf_intgFlag cell) (raf_j cell) (raf_v cell) (raf_w cell) (raf_tols cell)
       = Inr (raf_j cell, vo, wo, s', tols')"
    and sho: "shape vo = (r, c)" "shape wo = (r, c)" "shape s' = (r, c)" "shape tols' = (r, c)"
    by blast
  show ?thesis
    using sh(1) sho by (simp add: RAF_advance_state_def adv raf_state_shapes_def)
qed

lemma WTAS_advance_state_same_shape:
  assumes "wtas_state_shapes cell = [(r, c), (r, c), (r, c), (r, c), (r, c), (r, c)]"
  shows "\<exists>cell'. WTAS_advance_state cell t dt = Inr cell'
     \<and> wtas_state_shapes cell' = [(r, c), (r, c), (r, c), (r, c), (r, c), (r, c)]"
proof -
  from assms have sh: "shape (wtas_j cell) = (r, c)" "shape (wtas_rfr cell) = (r, c)"
    "shape (wtas_thr cell) = (r, c)" "shape (wtas_tols cell) = (r, c)"
    by (simp_all add: wtas_state_shapes_def)
  from WTAS_advance_same_shape [OF sh, of t dt "wtas_tau_m cell" "wtas_R_m cell"
      "wtas_thr_gain cell" "wtas_refract_T cell" "wtas_v cell" "wtas_s cell"]
  obtain v' s' thr' rfr' tols' where
    adv: "WTAS_advance_state_pure t dt (wtas_tau_m cell) (wtas_R_m cell) (wtas_thr_gain cell)
       (wtas_refract_T cell) (wtas_j cell) (wtas_v cell) (wtas_s cell) (wtas_thr cell)
       (wtas_rfr cell) (wtas_tols cell) = Inr (v', s', thr', rfr', tols')"
    and sho: "shape v' = (r, c)" "shape s' = (r, c)" "shape thr' = (r, c)" "shape rfr' = (r, c)"
      "shape tols' = (r, c)"
    by blast
  show ?thesis
    using sh(1) sho by (simp add: WTAS_advance_state_def adv wtas_state_shapes_def)
qed

lemma RAF_integrate_euler_branch:
  "intgFlag \<noteq> 1 \<Longrightarrow>
   RAF_integrate intgFlag dt tau_m tau_w omega b j_scaled v w =
     and_then (step_euler 0 w dfw dt (j_scaled, v, tau_w, omega, b)) (\<lambda>(_, w').
     and_then (step_euler 0 v dfv dt (j_scaled, w, tau_m, omega, b)) (\<lambda>(_, v').
     Inr (w', v')))"
  by (simp add: RAF_integrate_def Let_def)

section \<open>Unrecognised integration selectors\<close>

lemma RAF_advance_euler:
  assumes "shape j = (r, c)" "shape v = (r, c)" "shape w = (r, c)" "shape tols = (r, c)"
    and "intgFlag \<noteq> 1"
  shows "\<exists>vo wo s' tols'.
     RAF_advance_state_pure t dt tau_m R_m tau_w thr omega b v_rest v_reset w_reset intgFlag
          j v w tols = Inr (j, vo, wo, s', tols')
     \<and> shape vo = (r, c) \<and> shape wo = (r, c) \<and> shape s' = (r, c) \<and> shape tols' = (r, c)
     \<and> (\<forall>i<r. \<forall>k<c.
          (let W = entry w i k; V = entry v i k; J = entry j i k * R_m;
               w_euler = W + ((W * b - V * omega + J) / tau_w) * dt;
               v_euler = V + ((omega * W + V * b) / tau_m) * dt;
               spike = (if v_euler > thr then 1 else 0)
           in entry s' i k = spike
            \<and> entry vo i k = v_euler * (1 - spike) + spike * v_reset
            \<and> entry wo i k = w_euler * (1 - spike) + spike * w_reset
            \<and> entry tols' i k = (1 - spike) * entry tols i k + spike * t))"
proof -
  from RAF_advance_same_shape [OF assms(1-4), of intgFlag dt tau_m tau_w omega b R_m t thr v_rest
      v_reset w_reset]
  obtain w' v' vo wo s' tols' where
    adv: "RAF_advance_state_pure t dt tau_m R_m tau_w thr omega b v_rest v_reset w_reset intgFlag
          j v w tols = Inr (j, vo, wo, s', tols')"
    and sh: "shape vo = (r, c)" "shape wo = (r, c)" "shape s' = (r, c)" "shape tols' = (r, c)"
    and el: "\<forall>i<r. \<forall>k<c.
          (let W = entry w i k; V = entry v i k; J = entry j i k * R_m;
               dw = (\<lambda>x. (x * b - V * omega + J) * (1 / tau_w));
               dv = (\<lambda>x. (omega * W + x * b) * (1 / tau_m))
           in entry w' i k = (if intgFlag = 1 then W + dw (W + dw W * (dt / 2)) * dt
                              else W + dw W * dt)
            \<and> entry v' i k = (if intgFlag = 1 then V + dv (V + dv V * (dt / 2)) * dt
                              else V + dv V * dt))
        \<and> entry s' i k = (if entry v' i k > thr then 1 else 0)
        \<and> entry vo i k = entry v' i k * (1 - entry s' i k) + entry s' i k * v_reset
        \<and> entry wo i k = entry w' i k * (1 - entry s' i k) + entry s' i k * w_reset
        \<and> entry tols' i k = (1 - entry s' i k) * entry tols i k + entry s' i k * t"
    by blast
  from el assms(5) have "\<forall>i<r. \<forall>k<c.
          (let W = entry w i k; V = entry v i k; J = entry j i k * R_m;
               w_euler = W + ((W * b - V * omega + J) / tau_w) * dt;
               v_euler = V + ((omega * W + V * b) / tau_m) * dt;
               spike = (if v_euler > thr then 1 else 0)
           in entry s' i k = spike
            \<and> entry vo i k = v_euler * (1 - spike) + spike * v_reset
            \<and> entry wo i k = w_euler * (1 - spike) + spike * w_reset
            \<and> entry tols' i k = (1 - spike) * entry tols i k + spike * t)"
    by (simp add: Let_def)
  with adv sh show ?thesis by blast
qed

text \<open>
  Claim C6.  The selector reaches the step only as the integrator code that the constructor
  stores, and the step tests that code against 1 alone.  So, on arrays of one shape and with
  time constants other than 0: for every integrator code other than 1 the step completes
  and is the first-order Euler step, unit by unit: the candidates are
  \<open>W + ((W * b - V * omega + J) / tau_w) * dt\<close> and
  \<open>V + ((omega * W + V * b) / tau_m) * dt\<close>, from which spike, voltage, angular driver and
  time of last spike follow.  A selector other than "euler", "midpoint" and "rk2" gets a
  code other than 1; hence a cell constructed with such a selector, in whatever state
  \<open>j\<close>, \<open>v\<close>, \<open>w\<close>, \<open>tols\<close> of one shape, completes its \<open>advance_state\<close> with exactly these
  Euler values and keeps its integrator code.
\<close>

theorem RAF_unrecognized_integrator_is_euler:
  assumes "shape j = (r, c)" "shape v = (r, c)" "shape w = (r, c)" "shape tols = (r, c)"
    and "tau_m \<noteq> 0" "tau_w \<noteq> 0"
  shows "(intgFlag \<noteq> 1 \<longrightarrow>
      (\<exists>vo wo s' tols'.
         RAF_advance_state_pure t dt tau_m R_m tau_w thr omega b v_rest v_reset w_reset intgFlag
            j v w tols = Inr (j, vo, wo, s', tols')
       \<and> (\<forall>i<r. \<forall>k<c.
            (let W = entry w i k; V = entry v i k; J = entry j i k * R_m;
                 w_euler = W + ((W * b - V * omega + J) / tau_w) * dt;
                 v_euler = V + ((omega * W + V * b) / tau_m) * dt;
                 spike = (if v_euler > thr then 1 else 0)
             in entry s' i k = spike
              \<and> entry vo i k = v_euler * (1 - spike) + spike * v_reset
              \<and> entry wo i k = w_euler * (1 - spike) + spike * w_reset
              \<and> entry tols' i k = (1 - spike) * entry tols i k + spike * t))))
   \<and> (integration_type \<notin> {''euler'', ''midpoint'', ''rk2''} \<longrightarrow>
      get_integrator_code integration_type \<noteq> 1
      \<and> (\<exists>cell'.
         RAF_advance_state
           ((RAFCell_init name n_units tau_m R_m tau_w omega thr v_rest v_reset w_reset b v0 w0
               integration_type batch_size)
            \<lparr>raf_j := j, raf_v := v, raf_w := w, raf_tols := tols\<rparr>) t dt = Inr cell'
       \<and> raf_intgFlag cell' = get_integrator_code integration_type
       \<and> raf_j cell' = j
       \<and> (\<forall>i<r. \<forall>k<c.
            (let W = entry w i k; V = entry v i k; J = entry j i k * R_m;
                 w_euler = W + ((W * b - V * omega + J) / tau_w) * dt;
                 v_euler = V + ((omega * W + V * b) / tau_m) * dt;
                 spike = (if v_euler > thr then 1 else 0)
             in entry (raf_s cell') i k = spike
              \<and> entry (raf_v cell') i k = v_euler * (1 - spike) + spike * v_reset
              \<and> entry (raf_w cell') i k = w_euler * (1 - spike) + spike * w_reset
              \<and> entry (raf_tols cell') i k = (1 - spike) * entry tols i k + spike * t))))"
proof (intro conjI impI)
  assume "intgFlag \<noteq> 1"
  from RAF_advance_euler [OF assms(1-4) this, of t dt tau_m R_m tau_w thr omega b v_rest v_reset
      w_reset]
  show "\<exists>vo wo s' tols'.
         RAF_advance_state_pure t dt tau_m R_m tau_w thr omega b v_rest v_reset w_reset intgFlag
            j v w tols = Inr (j, vo, wo, s', tols')
       \<and> (\<forall>i<r. \<forall>k<c.
            (let W = entry w i k; V = entry v i k; J = entry j i k * R_m;
                 w_euler = W + ((W * b - V * omega + J) / tau_w) * dt;
                 v_euler = V + ((omega * W + V * b) / tau_m) * dt;
                 spike = (if v_euler > thr then 1 else 0)
             in entry s' i k = spike
              \<and> entry vo i k = v_euler * (1 - spike) + spike * v_reset
              \<and> entry wo i k = w_euler * (1 - spike) + spike * w_reset
              \<and> entry tols' i k = (1 - spike) * entry tols i k + spike * t))"
    by blast
next
  assume sel: "integration_type \<notin> {''euler'', ''midpoint'', ''rk2''}"
  then show code: "get_integrator_code integration_type \<noteq> 1"
    by (simp add: get_integrator_code_def)
  let ?cell = "(RAFCell_init name n_units tau_m R_m tau_w omega thr v_rest v_reset w_reset b v0 w0
               integration_type batch_size)
            \<lparr>raf_j := j, raf_v := v, raf_w := w, raf_tols := tols\<rparr>"
  from RAF_advance_euler [OF assms(1-4) code, of t dt tau_m R_m tau_w thr omega b v_rest v_reset
      w_reset]
  obtain vo wo s' tols' where
    adv: "RAF_advance_state_pure t dt tau_m R_m tau_w thr omega b v_rest v_reset w_reset
            (get_integrator_code integration_type) j v w tols = Inr (j, vo, wo, s', tols')"
    and el: "\<forall>i<r. \<forall>k<c.
            (let W = entry w i k; V = entry v i k; J = entry j i k * R_m;
                 w_euler = W + ((W * b - V * omega + J) / tau_w) * dt;
                 v_euler = V + ((omega * W + V * b) / tau_m) * dt;
                 spike = (if v_euler > thr then 1 else 0)
             in entry s' i k = spike
              \<and> entry vo i k = v_euler * (1 - spike) + spike * v_reset
              \<and> entry wo i k = w_euler * (1 - spike) + spike * w_reset
              \<and> entry tols' i k = (1 - spike) * entry tols i k + spike * t)"
    by blast
  have step: "RAF_advance_state ?cell t dt
      = Inr (?cell\<lparr>raf_j := j, raf_w := wo, raf_v := vo, raf_s := s', raf_tols := tols'\<rparr>)"
    by (simp add: RAF_advance_state_def RAFCell_init_def Let_def adv)
  have flag: "raf_intgFlag (?cell\<lparr>raf_j := j, raf_w := wo, raf_v := vo, raf_s := s', raf_tols := tols'\<rparr>)
      = get_integrator_code integration_type"
    by (simp add: RAFCell_init_def Let_def)
  show "\<exists>cell'.
         RAF_advance_state ?cell t dt = Inr cell'
       \<and> raf_intgFlag cell' = get_integrator_code integration_type
       \<and> raf_j cell' = j
       \<and> (\<forall>i<r. \<forall>k<c.
            (let W = entry w i k; V = entry v i k; J = entry j i k * R_m;
                 w_euler = W + ((W * b - V * omega + J) / tau_w) * dt;
                 v_euler = V + ((omega * W + V * b) / tau_m) * dt;
                 spike = (if v_euler > thr then 1 else 0)
             in entry (raf_s cell') i k = spike
              \<and> entry (raf_v cell') i k = v_euler * (1 - spike) + spike * v_reset
              \<and> entry (raf_w cell') i k = w_euler * (1 - spike) + spike * w_reset
              \<and> entry (raf_tols cell') i k = (1 - spike) * entry tols i k + spike * t))"
    unfolding step using flag el by simp
qed

theorem RAF_unrecognized_integrator_is_euler_witness:
  "''leapfrog'' \<notin> {''euler'', ''midpoint'', ''rk2''} \<and> (4::int) \<noteq> 1
   \<and> (15::real) \<noteq> 0 \<and> (400::real) \<noteq> 0
   \<and> (\<exists>vo wo s' tols'.
         RAF_advance_state_pure 3 1 15 1 400 5 10 (- 1) (- 72) (- 75) 0 4
            (Tensor 1 1 [10]) (Tensor 1 1 [- 70]) (Tensor 1 1 [0]) (Tensor 1 1 [2])
           = Inr (Tensor 1 1 [10], vo, wo, s', tols')
       \<and> entry s' 0 0 = 0 \<and> entry vo 0 0 = - 196 / 3 \<and> entry wo 0 0 = 71 / 40
       \<and> entry tols' 0 0 = 2)
   \<and> (\<exists>cell'.
         RAF_advance_state
           ((RAFCell_init ''z0'' 1 15 1 400 10 5 (- 72) (- 75) 0 (- 1) (- 70) 0 ''leapfrog'' 1)
            \<lparr>raf_j := Tensor 1 1 [10], raf_v := Tensor 1 1 [- 70], raf_w := Tensor 1 1 [0],
             raf_tols := Tensor 1 1 [2]\<rparr>) 3 1 = Inr cell'
       \<and> entry (raf_s cell') 0 0 = 0 \<and> entry (raf_v cell') 0 0 = - 196 / 3
       \<and> entry (raf_w cell') 0 0 = 71 / 40 \<and> entry (raf_tols cell') 0 0 = 2)"
  using RAF_unrecognized_integrator_is_euler [where j = "Tensor 1 1 [10]" and r = 1 and c = 1
      and v = "Tensor 1 1 [- 70]" and w = "Tensor 1 1 [0]" and tols = "Tensor 1 1 [2]"
      and tau_m = 15 and tau_w = 400 and intgFlag = 4 and t = 3 and dt = 1 and R_m = 1
      and thr = 5 and omega = 10 and b = "- 1" and v_rest = "- 72" and v_reset = "- 75"
      and w_reset = 0 and integration_type = "''leapfrog''" and name = "''z0''" and n_units = 1
      and ?v0.0 = "- 70" and ?w0.0 = 0 and batch_size = 1]
  by (auto simp add: shape_def entry_single Let_def)

section \<open>Input currents of another shape\<close>







lemma RAF_advance_broadcast:
  assumes "shape j = (r', c')" "shape v = (r, c)" "shape w = (r, c)" "shape tols = (r, c)"
    and "compat r' r" "compat c' c"
  shows "\<exists>vo wo s' tols'.
     RAF_advance_state_pure t dt tau_m R_m tau_w thr omega b v_rest v_reset w_reset intgFlag
          j v w tols = Inr (j, vo, wo, s', tols')
     \<and> shape vo = (r, c) \<and> shape wo = (bdim r' r, bdim c' c)
     \<and> shape s' = (r, c) \<and> shape tols' = (r, c)"
proof -
  note defs = RAF_advance_state_pure_def RAF_integrate_def step_euler_def step_rk2_def
    dfw_def dfw_internal_def dfv_def dfv_internal_def raf_update_times_def emit_spike_def
    Let_def shape_def broadcast_ok
  from assms(5) consider "r' = r" | "r' = 1" | "r = 1" by (auto simp add: compat_def)
  then show ?thesis
  proof cases
    case 1
    from assms(6) consider "c' = c" | "c' = 1" | "c = 1" by (auto simp add: compat_def)
    then show ?thesis
      using assms(1-4) 1 by cases (simp_all add: defs)
  next
    case 2
    from assms(6) consider "c' = c" | "c' = 1" | "c = 1" by (auto simp add: compat_def)
    then show ?thesis
      using assms(1-4) 2 by cases (simp_all add: defs)
  next
    case 3
    from assms(6) consider "c' = c" | "c' = 1" | "c = 1" by (auto simp add: compat_def)
    then show ?thesis
      using assms(1-4) 3 by cases (simp_all add: defs)
  qed
qed








section \<open>The shapes of the state arrays\<close>

lemma RAF_reset_shapes:
  "raf_state_shapes (RAF_reset cell)
     = [(raf_batch_size cell, raf_n_units cell), (raf_batch_size cell, raf_n_units cell),
        (raf_batch_size cell, raf_n_units cell), (raf_batch_size cell, raf_n_units cell),
        (raf_batch_size cell, raf_n_units cell)]"
  by (simp add: raf_state_shapes_def RAF_reset_def RAF_reset_pure_def shape_def Let_def)

lemma WTAS_reset_shapes:
  "wtas_state_shapes (WTAS_reset cell)
     = [(wtas_batch_size cell, wtas_n_units cell), (wtas_batch_size cell, wtas_n_units cell),
        (wtas_batch_size cell, wtas_n_units cell), shape (wtas_thr cell),
        (wtas_batch_size cell, wtas_n_units cell), (wtas_batch_size cell, wtas_n_units cell)]"
  by (simp add: wtas_state_shapes_def WTAS_reset_def WTAS_reset_pure_def shape_def Let_def)

text \<open>
  Claim C8, as amended.  The RAF constructor allocates its five state arrays with the shape
  \<open>(batch_size, n_units)\<close> of the batch size it is given.  The WTAS constructor takes no
  batch size: it sets \<open>batch_size = 1\<close> and allocates its six state arrays with shape
  \<open>(1, n_units)\<close>, whatever keyword arguments the caller adds.  \<open>reset\<close> reallocates the
  arrays it writes with shape \<open>(batch_size, n_units)\<close>, and a step on a cell whose arrays
  (input current included) all have one shape completes and keeps that shape.
\<close>

theorem cell_state_shapes:
  "raf_state_shapes (RAFCell_init name n_units tau_m resist_m tau_w omega thr v_rest v_reset
        w_reset b v0 w0 integration_type batch_size)
     = [(batch_size, n_units), (batch_size, n_units), (batch_size, n_units),
        (batch_size, n_units), (batch_size, n_units)]
   \<and> raf_batch_size (RAFCell_init name n_units tau_m resist_m tau_w omega thr v_rest v_reset
        w_reset b v0 w0 integration_type batch_size) = batch_size
   \<and> raf_n_units (RAFCell_init name n_units tau_m resist_m tau_w omega thr v_rest v_reset
        w_reset b v0 w0 integration_type batch_size) = n_units
   \<and> wtas_state_shapes (WTASCell_init name n_units tau_m R_m thr_base thr_gain refract_T
        thr_jitter key directory kwargs)
     = [(1, n_units), (1, n_units), (1, n_units), (1, n_units), (1, n_units), (1, n_units)]
   \<and> wtas_batch_size (WTASCell_init name n_units tau_m R_m thr_base thr_gain refract_T
        thr_jitter key directory kwargs) = 1
   \<and> wtas_n_units (WTASCell_init name n_units tau_m R_m thr_base thr_gain refract_T
        thr_jitter key directory kwargs) = n_units
   \<and> raf_state_shapes (RAF_reset rc)
     = [(raf_batch_size rc, raf_n_units rc), (raf_batch_size rc, raf_n_units rc),
        (raf_batch_size rc, raf_n_units rc), (raf_batch_size rc, raf_n_units rc),
        (raf_batch_size rc, raf_n_units rc)]
   \<and> wtas_state_shapes (WTAS_reset wc)
     = [(wtas_batch_size wc, wtas_n_units wc), (wtas_batch_size wc, wtas_n_units wc),
        (wtas_batch_size wc, wtas_n_units wc), shape (wtas_thr wc),
        (wtas_batch_size wc, wtas_n_units wc), (wtas_batch_size wc, wtas_n_units wc)]
   \<and> (raf_state_shapes rc = [(r, c), (r, c), (r, c), (r, c), (r, c)]
        \<longrightarrow> map_sum id raf_state_shapes (RAF_advance_state rc t dt)
            = Inr [(r, c), (r, c), (r, c), (r, c), (r, c)])
   \<and> (wtas_state_shapes wc = [(r, c), (r, c), (r, c), (r, c), (r, c), (r, c)]
        \<longrightarrow> map_sum id wtas_state_shapes (WTAS_advance_state wc t dt)
            = Inr [(r, c), (r, c), (r, c), (r, c), (r, c), (r, c)])"
proof -
  have a: "map_sum id raf_state_shapes (RAF_advance_state rc t dt)
            = Inr [(r, c), (r, c), (r, c), (r, c), (r, c)]"
    if "raf_state_shapes rc = [(r, c), (r, c), (r, c), (r, c), (r, c)]"
    using RAF_advance_state_same_shape [OF that, of t dt] by auto
  have b: "map_sum id wtas_state_shapes (WTAS_advance_state wc t dt)
            = Inr [(r, c), (r, c), (r, c), (r, c), (r, c), (r, c)]"
    if "wtas_state_shapes wc = [(r, c), (r, c), (r, c), (r, c), (r, c), (r, c)]"
    using WTAS_advance_state_same_shape [OF that, of t dt] by auto
  have i1: "raf_batch_size (RAFCell_init name n_units tau_m resist_m tau_w omega thr v_rest v_reset
        w_reset b v0 w0 integration_type batch_size) = batch_size"
    and i2: "raf_n_units (RAFCell_init name n_units tau_m resist_m tau_w omega thr v_rest v_reset
        w_reset b v0 w0 integration_type batch_size) = n_units"
    by (simp_all add: RAFCell_init_def Let_def)
  have i3: "wtas_batch_size (WTASCell_init name n_units tau_m R_m thr_base thr_gain refract_T
        thr_jitter key directory kwargs) = 1"
    and i4: "wtas_n_units (WTASCell_init name n_units tau_m R_m thr_base thr_gain refract_T
        thr_jitter key directory kwargs) = n_units"
    by (simp_all add: WTASCell_init_def Let_def split: prod.splits)
  show ?thesis
    using a b i1 i2 i3 i4
    by (simp add: RAFCell_init_shapes WTASCell_init_shapes RAF_reset_shapes WTAS_reset_shapes)
qed

theorem cell_state_shapes_witness:
  "raf_state_shapes (RAFCell_init ''z0'' 4 15 1 400 10 5 (- 72) (- 75) 0 (- 1) (- 70) 0 ''euler'' 3)
     = [(3, 4), (3, 4), (3, 4), (3, 4), (3, 4)]
   \<and> map_sum id raf_state_shapes (RAF_advance_state
        (RAFCell_init ''z0'' 4 15 1 400 10 5 (- 72) (- 75) 0 (- 1) (- 70) 0 ''euler'' 3) 0 1)
     = Inr [(3, 4), (3, 4), (3, 4), (3, 4), (3, 4)]
   \<and> wtas_state_shapes (WTASCell_init ''z1'' 4 1 1 0.4 0.002 0 0.05 (\<lambda>n. 0) None [])
     = [(1, 4), (1, 4), (1, 4), (1, 4), (1, 4), (1, 4)]
   \<and> map_sum id wtas_state_shapes (WTAS_advance_state
        (WTASCell_init ''z1'' 4 1 1 0.4 0.002 0 0.05 (\<lambda>n. 0) None []) 0 1)
     = Inr [(1, 4), (1, 4), (1, 4), (1, 4), (1, 4), (1, 4)]"
proof -
  let ?rc = "RAFCell_init ''z0'' 4 15 1 400 10 5 (- 72) (- 75) 0 (- 1) (- 70) 0 ''euler'' 3"
  let ?wc = "WTASCell_init ''z1'' 4 1 1 0.4 0.002 0 0.05 (\<lambda>n. 0) None []"
  have r: "raf_state_shapes ?rc = [(3, 4), (3, 4), (3, 4), (3, 4), (3, 4)]"
    by (rule RAFCell_init_shapes)
  have w: "wtas_state_shapes ?wc = [(1, 4), (1, 4), (1, 4), (1, 4), (1, 4), (1, 4)]"
    by (rule WTASCell_init_shapes)
  have "map_sum id raf_state_shapes (RAF_advance_state ?rc 0 1)
     = Inr [(3, 4), (3, 4), (3, 4), (3, 4), (3, 4)]"
    using r cell_state_shapes [where rc = ?rc and wc = ?wc and r = 3 and c = 4 and t = 0
        and dt = 1 and name = "''z0''" and n_units = 4 and kwargs = "[]"]
    by simp
  moreover
  have "map_sum id wtas_state_shapes (WTAS_advance_state ?wc 0 1)
     = Inr [(1, 4), (1, 4), (1, 4), (1, 4), (1, 4), (1, 4)]"
    using w cell_state_shapes [where rc = ?rc and wc = ?wc and r = 1 and c = 4 and t = 0
        and dt = 1 and name = "''z0''" and n_units = 4 and kwargs = "[]"]
    by simp
  ultimately show ?thesis using r w by simp
qed

text \<open>
  The claim as stated fails twice.  A WTAS cell built for three units by a caller who adds
  \<open>batch_size = 4\<close> has state arrays of shape \<open>(1, 3)\<close>.  And the shapes are not fixed for
  good: a RAF cell of shape \<open>(1, 2)\<close> whose input current has been set to an array of shape
  \<open>(3, 2)\<close> completes its step with an angular driver of shape \<open>(3, 2)\<close>.
\<close>

theorem WTAS_batch_size_is_one:
  "wtas_state_shapes (WTASCell_init ''z1'' 3 1 1 0.4 0.002 0 0.05 (\<lambda>n. 0) None
        [(''batch_size'', 4)])
     = [(1, 3), (1, 3), (1, 3), (1, 3), (1, 3), (1, 3)]
   \<and> map_sum id raf_state_shapes (RAF_advance_state
        ((RAFCell_init ''z0'' 2 15 1 400 10 5 (- 72) (- 75) 0 (- 1) (- 70) 0 ''euler'' 1)
           \<lparr>raf_j := Tensor 3 2 [0, 0, 0, 0, 0, 0]\<rparr>) 0 1)
     = Inr [(3, 2), (1, 2), (3, 2), (1, 2), (1, 2)]"
proof -
  let ?fresh = "RAFCell_init ''z0'' 2 15 1 400 10 5 (- 72) (- 75) 0 (- 1) (- 70) 0 ''euler'' 1"
  let ?j = "Tensor 3 2 [0, 0, 0, 0, 0, 0]"
  let ?c = "?fresh\<lparr>raf_j := ?j\<rparr>"
  have sh0: "raf_state_shapes ?fresh = [(1, 2), (1, 2), (1, 2), (1, 2), (1, 2)]"
    by (rule RAFCell_init_shapes)
  then have sh: "shape (raf_j ?c) = (3, 2)" "shape (raf_v ?c) = (1, 2)"
    "shape (raf_w ?c) = (1, 2)" "shape (raf_tols ?c) = (1, 2)"
    by (simp_all add: raf_state_shapes_def shape_def)
  obtain vo wo s' tols' where
    adv: "RAF_advance_state_pure 0 1 (raf_tau_m ?c) (raf_R_m ?c) (raf_tau_w ?c) (raf_thr ?c)
       (raf_omega ?c) (raf_b ?c) (raf_v_rest ?c) (raf_v_reset ?c) (raf_w_reset ?c)
       (raf_intgFlag ?c) (raf_j ?c) (raf_v ?c) (raf_w ?c) (raf_tols ?c)
       = Inr (raf_j ?c, vo, wo, s', tols')"
    and sho: "shape vo = (1, 2)" "shape wo = (bdim 3 1, bdim 2 2)" "shape s' = (1, 2)"
      "shape tols' = (1, 2)"
    using RAF_advance_broadcast [OF sh, of 0 1 "raf_tau_m ?c" "raf_R_m ?c" "raf_tau_w ?c"
        "raf_thr ?c" "raf_omega ?c" "raf_b ?c" "raf_v_rest ?c" "raf_v_reset ?c" "raf_w_reset ?c"
        "raf_intgFlag ?c"]
    by auto
  from sho(2) have shw: "shape wo = (3, 2)" by simp
  have "map_sum id raf_state_shapes (RAF_advance_state ?c 0 1)
     = Inr [(3, 2), (1, 2), (3, 2), (1, 2), (1, 2)]"
    using sh(1) sho(1,3,4) shw unfolding RAF_advance_state_def adv
    by (simp add: raf_state_shapes_def)
  then show ?thesis by (simp add: WTASCell_init_shapes)
qed

end
